theory Spec2Isabelle
  imports Complex_Main "HOL-Library.Char_ord" "HOL-Library.List_Lexorder"
begin

text \<open>
  A shallow embedding of the camera navigation and pointer interaction of a 3D
  front end written in JavaScript: the orbital \<^verbatim>\<open>CameraController\<close> (drag, wheel, pinch
  and keyboard input, the damped frame update, and the eased transitions to the five
  nodes), the \<^verbatim>\<open>InteractionManager\<close> (hover and selection from ray casts), and the part of
  the application that connects a selection to a navigation. A handler is a function
  from the object's state and the event to the new state, with the list of the calls
  it makes to listeners, the DOM and the animation library where it makes any. The
  clock readings of \<^verbatim>\<open>performance.now()\<close> and the results of the ray casts are inputs.
\<close>

section \<open>JavaScript numbers\<close>

text \<open>
  A JavaScript number is an IEEE-754 double. The model keeps the real value of a
  finite number and the three special values, because the controller divides by
  quantities that can be zero: in JavaScript \<^verbatim>\<open>x / 0\<close> is no error but \<^verbatim>\<open>Infinity\<close>,
  \<^verbatim>\<open>-Infinity\<close> or \<^verbatim>\<open>NaN\<close>, and these values then flow through \<^verbatim>\<open>Math.min\<close>,
  \<^verbatim>\<open>Math.max\<close> and the comparisons. The operations below compute on the real values;
  the rounding of a result to the nearest double is the function \<open>round64\<close> at the end
  of this section, which the interpolation \<^verbatim>\<open>lerpVectors\<close> applies after each of its
  operations, since what is compared there is the equality of a computed position with
  a given one. The sign of zero is not modelled.
\<close>

datatype jsnum = Num real | PosInf | NegInf | NaN

fun js_neg :: "jsnum \<Rightarrow> jsnum" where
  "js_neg (Num a) = Num (- a)"
| "js_neg PosInf = NegInf"
| "js_neg NegInf = PosInf"
| "js_neg NaN = NaN"

fun js_add :: "jsnum \<Rightarrow> jsnum \<Rightarrow> jsnum" where
  "js_add (Num a) (Num b) = Num (a + b)"
| "js_add NaN _ = NaN"
| "js_add _ NaN = NaN"
| "js_add PosInf NegInf = NaN"
| "js_add NegInf PosInf = NaN"
| "js_add PosInf _ = PosInf"
| "js_add _ PosInf = PosInf"
| "js_add NegInf _ = NegInf"
| "js_add _ NegInf = NegInf"

definition js_sub :: "jsnum \<Rightarrow> jsnum \<Rightarrow> jsnum" where
  "js_sub a b = js_add a (js_neg b)"

text \<open>The sign of an infinite product or quotient; zero times infinity is \<^verbatim>\<open>NaN\<close>.\<close>

definition signed_inf :: "real \<Rightarrow> jsnum" where
  "signed_inf s = (if s = 0 then NaN else if 0 < s then PosInf else NegInf)"

fun js_mul :: "jsnum \<Rightarrow> jsnum \<Rightarrow> jsnum" where
  "js_mul (Num a) (Num b) = Num (a * b)"
| "js_mul NaN _ = NaN"
| "js_mul _ NaN = NaN"
| "js_mul (Num a) PosInf = signed_inf a"
| "js_mul (Num a) NegInf = signed_inf (- a)"
| "js_mul PosInf (Num b) = signed_inf b"
| "js_mul NegInf (Num b) = signed_inf (- b)"
| "js_mul PosInf PosInf = PosInf"
| "js_mul NegInf NegInf = PosInf"
| "js_mul PosInf NegInf = NegInf"
| "js_mul NegInf PosInf = NegInf"

fun js_div :: "jsnum \<Rightarrow> jsnum \<Rightarrow> jsnum" where
  "js_div (Num a) (Num b) = (if b = 0 then signed_inf a else Num (a / b))"
| "js_div NaN _ = NaN"
| "js_div _ NaN = NaN"
| "js_div (Num a) PosInf = Num 0"
| "js_div (Num a) NegInf = Num 0"
| "js_div PosInf (Num b) = (if 0 \<le> b then PosInf else NegInf)"
| "js_div NegInf (Num b) = (if 0 \<le> b then NegInf else PosInf)"
| "js_div _ _ = NaN"

text \<open>\<^verbatim>\<open>a < b\<close>: false whenever an operand is \<^verbatim>\<open>NaN\<close>.\<close>

fun js_lt :: "jsnum \<Rightarrow> jsnum \<Rightarrow> bool" where
  "js_lt (Num a) (Num b) = (a < b)"
| "js_lt NaN _ = False"
| "js_lt _ NaN = False"
| "js_lt _ NegInf = False"
| "js_lt PosInf _ = False"
| "js_lt NegInf _ = True"
| "js_lt _ PosInf = True"

text \<open>\<^verbatim>\<open>Math.min\<close> and \<^verbatim>\<open>Math.max\<close>: \<^verbatim>\<open>NaN\<close> as soon as an argument is \<^verbatim>\<open>NaN\<close>.\<close>

definition js_min :: "jsnum \<Rightarrow> jsnum \<Rightarrow> jsnum" where
  "js_min a b = (if a = NaN \<or> b = NaN then NaN else if js_lt b a then b else a)"

definition js_max :: "jsnum \<Rightarrow> jsnum \<Rightarrow> jsnum" where
  "js_max a b = (if a = NaN \<or> b = NaN then NaN else if js_lt a b then b else a)"

fun js_sqrt :: "jsnum \<Rightarrow> jsnum" where
  "js_sqrt (Num a) = (if a < 0 then NaN else Num (sqrt a))"
| "js_sqrt PosInf = PosInf"
| "js_sqrt _ = NaN"

fun js_sin :: "jsnum \<Rightarrow> jsnum" where
  "js_sin (Num a) = Num (sin a)"
| "js_sin _ = NaN"

fun js_cos :: "jsnum \<Rightarrow> jsnum" where
  "js_cos (Num a) = Num (cos a)"
| "js_cos _ = NaN"

fun js_acos :: "jsnum \<Rightarrow> jsnum" where
  "js_acos (Num a) = (if a < -1 \<or> 1 < a then NaN else Num (arccos a))"
| "js_acos _ = NaN"

text \<open>\<^verbatim>\<open>Math.atan2(y, x)\<close> on finite arguments, and its values at the infinities.\<close>

definition atan2 :: "real \<Rightarrow> real \<Rightarrow> real" where
  "atan2 y x =
     (if 0 < x then arctan (y / x)
      else if x < 0 then (if 0 \<le> y then arctan (y / x) + pi else arctan (y / x) - pi)
      else if 0 < y then pi / 2
      else if y < 0 then - pi / 2
      else 0)"

fun js_atan2 :: "jsnum \<Rightarrow> jsnum \<Rightarrow> jsnum" where
  "js_atan2 (Num y) (Num x) = Num (atan2 y x)"
| "js_atan2 NaN _ = NaN"
| "js_atan2 _ NaN = NaN"
| "js_atan2 (Num y) PosInf = Num 0"
| "js_atan2 (Num y) NegInf = (if 0 \<le> y then Num pi else Num (- pi))"
| "js_atan2 PosInf (Num x) = Num (pi / 2)"
| "js_atan2 NegInf (Num x) = Num (- pi / 2)"
| "js_atan2 PosInf PosInf = Num (pi / 4)"
| "js_atan2 NegInf PosInf = Num (- pi / 4)"
| "js_atan2 PosInf NegInf = Num (3 * pi / 4)"
| "js_atan2 NegInf NegInf = Num (- 3 * pi / 4)"

subsection \<open>Rounding to the nearest double\<close>

text \<open>
  \<open>rhe\<close> rounds a real to the nearest integer, a tie to the even one. \<open>fl x\<close> is the
  double nearest to the real \<open>x\<close> (binary64, round to nearest, ties to even): with \<open>e\<close>
  the binary exponent of \<open>x\<close>, not below \<open>-1022\<close> where the subnormal numbers begin, the
  doubles around \<open>x\<close> are the multiples of \<open>2\<^bsup>e - 52\<^esup>\<close>, and a result of magnitude
  \<open>2\<^bsup>1024\<^esup>\<close> is an infinity.
\<close>

definition rhe :: "real \<Rightarrow> int" where
  "rhe y =
     (let f = \<lfloor>y\<rfloor>; d = y - of_int f
      in if d < 1 / 2 then f else if 1 / 2 < d then f + 1 else if even f then f else f + 1)"

definition fl :: "real \<Rightarrow> jsnum" where
  "fl x =
     (if x = 0 then Num 0
      else let e = max \<lfloor>log 2 \<bar>x\<bar>\<rfloor> (- 1022);
               q = 2 powr (of_int e - 52);
               r = of_int (rhe (x / q)) * q
           in if 2 powr 1024 \<le> \<bar>r\<bar> then (if 0 < x then PosInf else NegInf) else Num r)"

fun round64 :: "jsnum \<Rightarrow> jsnum" where
  "round64 (Num x) = fl x"
| "round64 v = v"

section \<open>The parts of three.js the controller calls\<close>

text \<open>
  three.js is an external library. Its \<^verbatim>\<open>Vector3\<close> and \<^verbatim>\<open>Spherical\<close> are modelled by the
  operations the controller calls, as the library computes them. The fields \<^verbatim>\<open>x\<close>, \<^verbatim>\<open>y\<close>,
  \<^verbatim>\<open>z\<close> are named \<open>vx\<close>, \<open>vy\<close>, \<open>vz\<close>. The camera's orientation, which \<^verbatim>\<open>lookAt\<close> sets, is
  not part of the model: the calls are kept as effects.
\<close>

datatype Vector3 = Vector3 (vx: jsnum) (vy: jsnum) (vz: jsnum)

record Spherical =
  radius :: jsnum
  phi :: jsnum
  theta :: jsnum

definition new_Spherical :: Spherical where
  "new_Spherical = \<lparr>radius = Num 1, phi = Num 0, theta = Num 0\<rparr>"

definition v_sub :: "Vector3 \<Rightarrow> Vector3 \<Rightarrow> Vector3" where
  "v_sub a b = Vector3 (js_sub (vx a) (vx b)) (js_sub (vy a) (vy b)) (js_sub (vz a) (vz b))"

definition v_add :: "Vector3 \<Rightarrow> Vector3 \<Rightarrow> Vector3" where
  "v_add a b = Vector3 (js_add (vx a) (vx b)) (js_add (vy a) (vy b)) (js_add (vz a) (vz b))"

text \<open>
  \<^verbatim>\<open>lerpVectors(v1, v2, alpha)\<close>: each component is \<^verbatim>\<open>v1 + (v2 - v1) * alpha\<close>, a
  subtraction, a multiplication and an addition of doubles, each rounded.
\<close>

definition lerp :: "jsnum \<Rightarrow> jsnum \<Rightarrow> jsnum \<Rightarrow> jsnum" where
  "lerp a b alpha = round64 (js_add a (round64 (js_mul (round64 (js_sub b a)) alpha)))"

definition lerpVectors :: "Vector3 \<Rightarrow> Vector3 \<Rightarrow> jsnum \<Rightarrow> Vector3" where
  "lerpVectors v1 v2 alpha =
     Vector3 (lerp (vx v1) (vx v2) alpha) (lerp (vy v1) (vy v2) alpha) (lerp (vz v1) (vz v2) alpha)"

text \<open>
  \<^verbatim>\<open>Spherical.setFromVector3\<close>: the radius is the length; at radius zero both angles are
  zero, otherwise \<^verbatim>\<open>theta = atan2(x, z)\<close> and \<^verbatim>\<open>phi = acos(clamp(y / radius, -1, 1))\<close>.
\<close>

definition setFromVector3 :: "Vector3 \<Rightarrow> Spherical" where
  "setFromVector3 v =
     (let r = js_sqrt (js_add (js_add (js_mul (vx v) (vx v)) (js_mul (vy v) (vy v)))
                              (js_mul (vz v) (vz v)))
      in if r = Num 0 then \<lparr>radius = r, phi = Num 0, theta = Num 0\<rparr>
         else \<lparr>radius = r,
               phi = js_acos (js_max (Num (- 1)) (js_min (Num 1) (js_div (vy v) r))),
               theta = js_atan2 (vx v) (vz v)\<rparr>)"

text \<open>\<^verbatim>\<open>Vector3.setFromSpherical\<close>.\<close>

definition setFromSpherical :: "Spherical \<Rightarrow> Vector3" where
  "setFromSpherical sp =
     (let sinPhiRadius = js_mul (js_sin (phi sp)) (radius sp)
      in Vector3 (js_mul sinPhiRadius (js_sin (theta sp)))
                 (js_mul (js_cos (phi sp)) (radius sp))
                 (js_mul sinPhiRadius (js_cos (theta sp))))"

section \<open>CameraController\<close>

record Options =
  enableDamping :: bool
  dampingFactor :: real
  rotateSpeed :: real
  zoomSpeed :: real
  minDistance :: real
  maxDistance :: real
  minPolarAngle :: real
  maxPolarAngle :: real
  transitionDuration :: real
  reducedMotion :: bool

definition default_options :: Options where
  "default_options =
     \<lparr>enableDamping = True, dampingFactor = 0.05, rotateSpeed = 0.5, zoomSpeed = 1.0,
      minDistance = 20, maxDistance = 100, minPolarAngle = pi * 0.1, maxPolarAngle = pi * 0.9,
      transitionDuration = 2, reducedMotion = False\<rparr>"

datatype NodePosition =
  NodePosition (node_position: Vector3) (node_target: Vector3) (node_name: string)

definition vec :: "real \<Rightarrow> real \<Rightarrow> real \<Rightarrow> Vector3" where
  "vec a b c = Vector3 (Num a) (Num b) (Num c)"

text \<open>
  \<^verbatim>\<open>this.nodePositions\<close>: the constructor's five entries; the class never assigns the
  field again.
\<close>

definition nodePositions :: "NodePosition list" where
  "nodePositions =
     [NodePosition (vec 0 0 50) (vec 0 0 0) ''Hub'',
      NodePosition (vec 30 5 25) (vec 25 0 10) ''About'',
      NodePosition (vec (- 30) 10 20) (vec (- 25) 5 5) ''Work'',
      NodePosition (vec 15 (- 10) 35) (vec 10 (- 5) 20) ''Services'',
      NodePosition (vec (- 20) 0 30) (vec (- 15) 0 15) ''Contact'']"

record PointerState =
  isDown :: bool
  startX :: real
  startY :: real
  currentX :: real
  currentY :: real

record TouchState =
  initialDistance :: real
  currentDistance :: real

text \<open>
  What \<^verbatim>\<open>navigateToNode\<close> is suspended on while a transition runs: the closure of
  \<^verbatim>\<open>fallbackTransition\<close>'s \<^verbatim>\<open>animate\<close>, scheduled with \<^verbatim>\<open>requestAnimationFrame\<close>, or the two
  GSAP tweens it awaits.
\<close>

datatype Transition =
  FallbackTransition (startPos: Vector3) (startTarget: Vector3) (startTime: real)
    (durationMs: real) (node: NodePosition)
| GsapTweens (tween_node: NodePosition) (tween_duration: real)

text \<open>
  What a handler does beyond changing the controller: the calls of the registered
  navigation listeners (a listener is known by the number it was registered under),
  the writes to the camera and to the look-at target, and the calls into the DOM and
  into GSAP, in the order the code makes them.
\<close>

datatype Effect =
  NavigateCallback nat int string
| SetCameraPosition Vector3
| SetTarget Vector3
| LookAt Vector3
| RequestAnimationFrame
| GsapToCameraPosition Vector3 real
| GsapToTarget Vector3 real
| PreventDefault
| SetCursor string
| SetPointerCapture int
| ReleasePointerCapture int

record CameraController =
  options :: Options
  spherical :: Spherical
  sphericalDelta :: Spherical
  target :: Vector3
  camera_position :: Vector3
  enabled :: bool
  isTransitioning :: bool
  currentNodeIndex :: int
  pointerState :: PointerState
  touchState :: TouchState
  onNavigateCallbacks :: "nat list"
  gsap :: bool
  transition :: "Transition option"

definition updateSphericalFromCamera :: "CameraController \<Rightarrow> CameraController" where
  "updateSphericalFromCamera s =
     s\<lparr>spherical := setFromVector3 (v_sub (camera_position s) (target s))\<rparr>"

text \<open>
  The constructor, for a camera at \<open>cam\<close>, and \<^verbatim>\<open>init\<close> once the import of GSAP has
  succeeded (\<open>loaded\<close>) or failed.
\<close>

definition new_CameraController :: "Vector3 \<Rightarrow> Options \<Rightarrow> CameraController" where
  "new_CameraController cam opts =
     \<lparr>options = opts, spherical = new_Spherical, sphericalDelta = new_Spherical,
      target = vec 0 0 0, camera_position = cam, enabled = True, isTransitioning = False,
      currentNodeIndex = 0,
      pointerState = \<lparr>isDown = False, startX = 0, startY = 0, currentX = 0, currentY = 0\<rparr>,
      touchState = \<lparr>initialDistance = 0, currentDistance = 0\<rparr>,
      onNavigateCallbacks = [], gsap = False, transition = None\<rparr>"

definition init :: "CameraController \<Rightarrow> bool \<Rightarrow> CameraController" where
  "init s loaded = updateSphericalFromCamera (s\<lparr>gsap := loaded\<rparr>)"

subsection \<open>Pointer, wheel and touch input\<close>

record Touch =
  clientX :: real
  clientY :: real

record PointerEvent = Touch +
  button :: int
  pointerId :: int

definition onPointerDown :: "CameraController \<Rightarrow> PointerEvent \<Rightarrow> CameraController \<times> Effect list" where
  "onPointerDown s event =
     (if \<not> enabled s \<or> isTransitioning s then (s, [])
      else if button event \<noteq> 0 then (s, [])
      else (s\<lparr>pointerState := \<lparr>isDown = True, startX = clientX event, startY = clientY event,
                                currentX = clientX event, currentY = clientY event\<rparr>\<rparr>,
            [SetCursor ''grabbing'', SetPointerCapture (pointerId event)]))"

definition onPointerMove :: "CameraController \<Rightarrow> PointerEvent \<Rightarrow> CameraController" where
  "onPointerMove s event =
     (if \<not> enabled s \<or> \<not> isDown (pointerState s) then s
      else let deltaX = clientX event - currentX (pointerState s);
               deltaY = clientY event - currentY (pointerState s);
               d = sphericalDelta s
           in s\<lparr>pointerState := (pointerState s)\<lparr>currentX := clientX event,
                                                 currentY := clientY event\<rparr>,
                sphericalDelta :=
                  d\<lparr>theta := js_sub (theta d) (Num (deltaX * rotateSpeed (options s) * 0.01)),
                    phi := js_sub (phi d) (Num (deltaY * rotateSpeed (options s) * 0.01))\<rparr>\<rparr>)"

definition onPointerUp :: "CameraController \<Rightarrow> PointerEvent \<Rightarrow> CameraController \<times> Effect list" where
  "onPointerUp s event =
     (s\<lparr>pointerState := (pointerState s)\<lparr>isDown := False\<rparr>\<rparr>,
      [SetCursor ''grab'', ReleasePointerCapture (pointerId event)])"

text \<open>\<^verbatim>\<open>Math.max(minDistance, Math.min(maxDistance, radius))\<close>, the clamp of both zoom paths.\<close>

definition clamp_zoom :: "Options \<Rightarrow> jsnum \<Rightarrow> jsnum" where
  "clamp_zoom opts r = js_max (Num (minDistance opts)) (js_min (Num (maxDistance opts)) r)"

definition onWheel :: "CameraController \<Rightarrow> real \<Rightarrow> CameraController \<times> Effect list" where
  "onWheel s deltaY =
     (if \<not> enabled s \<or> isTransitioning s then (s, [])
      else let zoomDelta = deltaY * 0.001 * zoomSpeed (options s);
               r = js_mul (radius (spherical s)) (Num (1 + zoomDelta))
           in (s\<lparr>spherical := (spherical s)\<lparr>radius := clamp_zoom (options s) r\<rparr>\<rparr>,
               [PreventDefault]))"

text \<open>The distance between the two touches, \<^verbatim>\<open>Math.sqrt(dx * dx + dy * dy)\<close>.\<close>

definition touch_distance :: "Touch \<Rightarrow> Touch \<Rightarrow> real" where
  "touch_distance t0 t1 =
     (let dx = clientX t0 - clientX t1;
          dy = clientY t0 - clientY t1
      in sqrt (dx * dx + dy * dy))"

text \<open>Both touch handlers act only when \<^verbatim>\<open>event.touches.length === 2\<close>.\<close>

definition onTouchStart :: "CameraController \<Rightarrow> Touch list \<Rightarrow> CameraController" where
  "onTouchStart s touches =
     (case touches of
        [t0, t1] \<Rightarrow> s\<lparr>touchState := (touchState s)\<lparr>initialDistance := touch_distance t0 t1\<rparr>\<rparr>
      | _ \<Rightarrow> s)"

definition onTouchMove :: "CameraController \<Rightarrow> Touch list \<Rightarrow> CameraController \<times> Effect list" where
  "onTouchMove s touches =
     (if \<not> enabled s \<or> isTransitioning s then (s, [])
      else case touches of
        [t0, t1] \<Rightarrow>
          let cur = touch_distance t0 t1;
              ratio = js_div (Num (initialDistance (touchState s))) (Num cur);
              r = js_mul (radius (spherical s)) ratio
          in (s\<lparr>touchState := \<lparr>initialDistance = cur, currentDistance = cur\<rparr>,
                spherical := (spherical s)\<lparr>radius := clamp_zoom (options s) r\<rparr>\<rparr>,
              [PreventDefault])
      | _ \<Rightarrow> (s, []))"

subsection \<open>Transitions\<close>

text \<open>
  The linear progress and its easing, both taken on the real values (rounding is
  modelled in the interpolation only), and one run of \<^verbatim>\<open>animate\<close> when
  \<^verbatim>\<open>performance.now()\<close> reads \<open>now\<close>; the primed arguments are the variables the closure
  captured (\<^verbatim>\<open>startPos\<close>, \<^verbatim>\<open>startTarget\<close>, \<^verbatim>\<open>startTime\<close>, \<^verbatim>\<open>durationMs\<close>, \<^verbatim>\<open>node\<close>).
  When the progress is not below one the promise resolves and \<^verbatim>\<open>navigateToNode\<close>
  finishes: the spherical coordinates are read back from the camera and
  \<^verbatim>\<open>isTransitioning\<close> is cleared.
\<close>

definition progress_at :: "real \<Rightarrow> real \<Rightarrow> jsnum" where
  "progress_at elapsed dur = js_min (js_div (Num elapsed) (Num dur)) (Num 1)"

definition ease_in_out :: "jsnum \<Rightarrow> jsnum" where
  "ease_in_out progress =
     (if js_lt progress (Num 0.5) then js_mul (js_mul (Num 2) progress) progress
      else let b = js_add (js_mul (Num (- 2)) progress) (Num 2)
           in js_sub (Num 1) (js_div (js_mul b b) (Num 2)))"

definition animate :: "CameraController \<Rightarrow> Vector3 \<Rightarrow> Vector3 \<Rightarrow> real \<Rightarrow> real \<Rightarrow> NodePosition
    \<Rightarrow> real \<Rightarrow> CameraController \<times> Effect list" where
  "animate s startPos' startTarget' startTime' durationMs' node' now =
     (let elapsed = now - startTime';
          progress = progress_at elapsed durationMs';
          eased = ease_in_out progress;
          pos = lerpVectors startPos' (node_position node') eased;
          tgt = lerpVectors startTarget' (node_target node') eased;
          s1 = s\<lparr>camera_position := pos, target := tgt\<rparr>
      in if js_lt progress (Num 1)
         then (s1, [SetCameraPosition pos, SetTarget tgt, LookAt tgt, RequestAnimationFrame])
         else ((updateSphericalFromCamera s1)\<lparr>isTransitioning := False, transition := None\<rparr>,
               [SetCameraPosition pos, SetTarget tgt, LookAt tgt]))"

text \<open>
  \<^verbatim>\<open>fallbackTransition(node, duration)\<close>: \<open>t0\<close> is the reading of \<^verbatim>\<open>performance.now()\<close> that
  becomes \<^verbatim>\<open>startTime\<close>, \<open>t1\<close> the reading of the first run of \<^verbatim>\<open>animate\<close>, which is made
  at once.
\<close>

definition fallbackTransition :: "CameraController \<Rightarrow> NodePosition \<Rightarrow> real \<Rightarrow> real \<Rightarrow> real
    \<Rightarrow> CameraController \<times> Effect list" where
  "fallbackTransition s node' duration t0 t1 =
     (let startPos' = camera_position s;
          startTarget' = target s;
          durationMs' = duration * 1000
      in animate (s\<lparr>transition := Some (FallbackTransition startPos' startTarget' t0 durationMs' node')\<rparr>)
           startPos' startTarget' t0 durationMs' node' t1)"

definition navigateToNode :: "CameraController \<Rightarrow> int \<Rightarrow> real \<Rightarrow> real
    \<Rightarrow> CameraController \<times> Effect list" where
  "navigateToNode s nodeIndex t0 t1 =
     (if nodeIndex < 0 \<or> nodeIndex \<ge> int (length nodePositions) then (s, [])
      else if isTransitioning s then (s, [])
      else let node' = nodePositions ! nat nodeIndex;
               s1 = s\<lparr>currentNodeIndex := nodeIndex, isTransitioning := True\<rparr>;
               duration = (if reducedMotion (options s1) then 0.1
                           else transitionDuration (options s1));
               notified = map (\<lambda>cb. NavigateCallback cb nodeIndex (node_name node'))
                            (onNavigateCallbacks s1)
           in if gsap s1
              then (s1\<lparr>transition := Some (GsapTweens node' duration)\<rparr>,
                    notified @ [GsapToCameraPosition (node_position node') duration,
                                GsapToTarget (node_target node') duration])
              else let (s2, moved) = fallbackTransition s1 node' duration t0 t1
                   in (s2, notified @ moved))"

text \<open>The callback that \<^verbatim>\<open>requestAnimationFrame\<close> runs: the pending \<^verbatim>\<open>animate\<close>, if any.\<close>

definition onAnimationFrame :: "CameraController \<Rightarrow> real \<Rightarrow> CameraController \<times> Effect list" where
  "onAnimationFrame s now =
     (case transition s of
        Some (FallbackTransition p0 g0 t0 dur nd) \<Rightarrow> animate s p0 g0 t0 dur nd now
      | _ \<Rightarrow> (s, []))"

text \<open>
  GSAP is an external library, loaded at run time. Of its tweens the model keeps what
  the controller relies on: after \<^verbatim>\<open>gsap.to\<close> the library writes values of its own
  choosing to the camera position and the target on its ticks (\<open>gsapUpdate\<close>, with the
  \<^verbatim>\<open>onUpdate\<close> call of \<^verbatim>\<open>lookAt\<close>), and when both tweens are done the properties hold their
  end values and the awaited promise resolves (\<open>gsapComplete\<close>).
\<close>

definition gsapUpdate :: "CameraController \<Rightarrow> Vector3 \<Rightarrow> Vector3 \<Rightarrow> CameraController \<times> Effect list" where
  "gsapUpdate s pos tgt =
     (case transition s of
        Some (GsapTweens nd dur) \<Rightarrow>
          (s\<lparr>camera_position := pos, target := tgt\<rparr>,
           [SetCameraPosition pos, SetTarget tgt, LookAt tgt])
      | _ \<Rightarrow> (s, []))"

definition gsapComplete :: "CameraController \<Rightarrow> CameraController \<times> Effect list" where
  "gsapComplete s =
     (case transition s of
        Some (GsapTweens nd dur) \<Rightarrow>
          ((updateSphericalFromCamera
              (s\<lparr>camera_position := node_position nd, target := node_target nd\<rparr>))
             \<lparr>isTransitioning := False, transition := None\<rparr>,
           [SetCameraPosition (node_position nd), SetTarget (node_target nd),
            LookAt (node_target nd)])
      | _ \<Rightarrow> (s, []))"

definition onNavigate :: "CameraController \<Rightarrow> nat \<Rightarrow> CameraController" where
  "onNavigate s callback = s\<lparr>onNavigateCallbacks := onNavigateCallbacks s @ [callback]\<rparr>"

definition offNavigate :: "CameraController \<Rightarrow> nat \<Rightarrow> CameraController" where
  "offNavigate s callback = s\<lparr>onNavigateCallbacks := remove1 callback (onNavigateCallbacks s)\<rparr>"

definition setReducedMotion :: "CameraController \<Rightarrow> bool \<Rightarrow> CameraController" where
  "setReducedMotion s b = s\<lparr>options := (options s)\<lparr>reducedMotion := b\<rparr>\<rparr>"

subsection \<open>Keyboard input\<close>

record KeyboardEvent =
  key :: string
  shiftKey :: bool

text \<open>
  \<^verbatim>\<open>parseInt\<close> on a string that starts with a decimal digit, the only strings the handler
  gives it: the value of the longest run of digits at its start.
\<close>

definition is_digit :: "char \<Rightarrow> bool" where
  "is_digit c = (CHR ''0'' \<le> c \<and> c \<le> CHR ''9'')"

definition parseInt :: "string \<Rightarrow> int" where
  "parseInt str = int (foldl (\<lambda>n c. 10 * n + (of_char c - 48)) 0 (takeWhile is_digit str))"

text \<open>\<^verbatim>\<open>a % b\<close> on integers, \<open>b\<close> not zero: the remainder takes the sign of \<open>a\<close>.\<close>

definition js_rem :: "int \<Rightarrow> int \<Rightarrow> int" where
  "js_rem a b = sgn a * (\<bar>a\<bar> mod \<bar>b\<bar>)"

text \<open>\<^verbatim>\<open>this.sphericalDelta.theta += d\<close> and \<^verbatim>\<open>this.sphericalDelta.phi += d\<close>.\<close>

definition add_theta :: "CameraController \<Rightarrow> real \<Rightarrow> CameraController" where
  "add_theta s d =
     s\<lparr>sphericalDelta := (sphericalDelta s)\<lparr>theta := js_add (theta (sphericalDelta s)) (Num d)\<rparr>\<rparr>"

definition add_phi :: "CameraController \<Rightarrow> real \<Rightarrow> CameraController" where
  "add_phi s d =
     s\<lparr>sphericalDelta := (sphericalDelta s)\<lparr>phi := js_add (phi (sphericalDelta s)) (Num d)\<rparr>\<rparr>"

text \<open>
  \<^verbatim>\<open>onKeyDown\<close>; \<open>t0\<close> and \<open>t1\<close> are the clock readings a navigation it starts would make.
  The \<^verbatim>\<open>-=\<close> of the right and up arrows is the addition of the negated amount.
\<close>

definition onKeyDown :: "CameraController \<Rightarrow> KeyboardEvent \<Rightarrow> real \<Rightarrow> real
    \<Rightarrow> CameraController \<times> Effect list" where
  "onKeyDown s event t0 t1 =
     (if \<not> enabled s then (s, [])
      else if ''1'' \<le> key event \<and> key event \<le> ''5'' then
        (let nodeIndex = parseInt (key event) - 1
         in if nodeIndex < int (length nodePositions) then navigateToNode s nodeIndex t0 t1
            else (s, []))
      else
        let rotateAmount = rotateSpeed (options s) * 0.1;
            zoomAmount = 2;
            r = radius (spherical s)
        in if key event = ''ArrowLeft'' then (add_theta s rotateAmount, [PreventDefault])
           else if key event = ''ArrowRight'' then (add_theta s (- rotateAmount), [PreventDefault])
           else if key event = ''ArrowUp'' then (add_phi s (- rotateAmount), [PreventDefault])
           else if key event = ''ArrowDown'' then (add_phi s rotateAmount, [PreventDefault])
           else if key event = ''+'' \<or> key event = ''='' then
             (s\<lparr>spherical := (spherical s)
                  \<lparr>radius := js_max (Num (minDistance (options s))) (js_sub r (Num zoomAmount))\<rparr>\<rparr>,
              [PreventDefault])
           else if key event = ''-'' \<or> key event = ''_'' then
             (s\<lparr>spherical := (spherical s)
                  \<lparr>radius := js_min (Num (maxDistance (options s))) (js_add r (Num zoomAmount))\<rparr>\<rparr>,
              [PreventDefault])
           else if key event = ''Home'' then
             (let (s', done') = navigateToNode s 0 t0 t1 in (s', done' @ [PreventDefault]))
           else if key event = ''Tab'' then
             (let n = int (length nodePositions);
                  nextIndex = (if shiftKey event then js_rem (currentNodeIndex s - 1 + n) n
                               else js_rem (currentNodeIndex s + 1) n);
                  (s', done') = navigateToNode s nextIndex t0 t1
              in (s', done' @ [PreventDefault]))
           else (s, []))"

subsection \<open>The frame update\<close>

text \<open>\<^verbatim>\<open>update(delta)\<close>; the argument is not used by the code.\<close>

definition update :: "CameraController \<Rightarrow> real \<Rightarrow> CameraController" where
  "update s delta =
     (if \<not> enabled s \<or> isTransitioning s then s
      else
        let sp = spherical s; d = sphericalDelta s; opts = options s;
            f = dampingFactor opts;
            (sp1, d1) =
              (if enableDamping opts
               then (sp\<lparr>theta := js_add (theta sp) (js_mul (theta d) (Num f)),
                        phi := js_add (phi sp) (js_mul (phi d) (Num f))\<rparr>,
                     d\<lparr>theta := js_mul (theta d) (Num (1 - f)),
                       phi := js_mul (phi d) (Num (1 - f))\<rparr>)
               else (sp\<lparr>theta := js_add (theta sp) (theta d),
                        phi := js_add (phi sp) (phi d)\<rparr>,
                     \<lparr>radius = Num 0, phi = Num 0, theta = Num 0\<rparr>));
            sp2 = sp1\<lparr>phi := js_max (Num (minPolarAngle opts))
                                  (js_min (Num (maxPolarAngle opts)) (phi sp1))\<rparr>;
            offset = setFromSpherical sp2
        in s\<lparr>spherical := sp2, sphericalDelta := d1,
             camera_position := v_add (target s) offset\<rparr>)"

section \<open>InteractionManager\<close>

text \<open>
  A scene object with what the manager reads of it: its identity, whether
  \<^verbatim>\<open>userData.isNode\<close> is set, \<^verbatim>\<open>userData.index\<close>, and its parent. An object carries its
  chain of ancestors, so the chain is finite, as in a scene graph. Two objects are the
  same JavaScript object exactly when they are equal here.
\<close>

datatype Object3D =
  Object3D (uuid: nat) (isNode: bool) (userIndex: int) (parent: "Object3D option")

record Intersection =
  object :: Object3D
  point :: Vector3

text \<open>\<^verbatim>\<open>findNodeGroup\<close>: the nearest ancestor, the object included, that is a node; else null.\<close>

fun findNodeGroup :: "Object3D \<Rightarrow> Object3D option" where
  "findNodeGroup (Object3D i n ix p) =
     (if n then Some (Object3D i n ix p)
      else case p of None \<Rightarrow> None | Some q \<Rightarrow> findNodeGroup q)"

text \<open>
  The events of the four channels with their arguments, and what the manager does
  beyond changing itself: a call of a registered listener (known by the number it was
  registered under) with an event, and a write to the cursor style of the DOM element.
\<close>

datatype Event =
  Hover "Object3D option" Intersection
| Unhover Object3D
| Click Object3D Intersection
| Select Object3D Intersection

datatype Channel = hover | unhover | click | select

datatype Action = Call nat Event | Cursor string

record InteractionManager =
  hoveredObject :: "Object3D option"
  selectedObject :: "Object3D option"
  isEnabled :: bool
  callbacks :: "Channel \<Rightarrow> nat list"

definition new_InteractionManager :: InteractionManager where
  "new_InteractionManager =
     \<lparr>hoveredObject = None, selectedObject = None, isEnabled = True, callbacks = (\<lambda>c. [])\<rparr>"

definition on :: "InteractionManager \<Rightarrow> Channel \<Rightarrow> nat \<Rightarrow> InteractionManager" where
  "on m c callback = m\<lparr>callbacks := (callbacks m)(c := callbacks m c @ [callback])\<rparr>"

definition off :: "InteractionManager \<Rightarrow> Channel \<Rightarrow> nat \<Rightarrow> InteractionManager" where
  "off m c callback = m\<lparr>callbacks := (callbacks m)(c := remove1 callback (callbacks m c))\<rparr>"

definition triggerCallbacks :: "InteractionManager \<Rightarrow> Channel \<Rightarrow> Event \<Rightarrow> Action list" where
  "triggerCallbacks m c e = map (\<lambda>cb. Call cb e) (callbacks m c)"

text \<open>
  The ray cast is three.js's. Its result, the list of intersections with the nearest
  first, is an input of the handlers below; the mouse coordinates, which only feed the
  ray cast, are left out.
\<close>

definition checkHover :: "InteractionManager \<Rightarrow> Intersection list \<Rightarrow> InteractionManager \<times> Action list" where
  "checkHover m intersections =
     (case intersections of
        first # _ \<Rightarrow>
          (let nodeGroup = findNodeGroup (object first)
           in if nodeGroup \<noteq> hoveredObject m
              then (m\<lparr>hoveredObject := nodeGroup\<rparr>,
                    (case hoveredObject m of
                       Some h \<Rightarrow> triggerCallbacks m unhover (Unhover h)
                     | None \<Rightarrow> [])
                    @ [Cursor ''pointer'']
                    @ triggerCallbacks m hover (Hover nodeGroup first))
              else (m, []))
      | [] \<Rightarrow>
          (case hoveredObject m of
             Some h \<Rightarrow> (m\<lparr>hoveredObject := None\<rparr>,
                        triggerCallbacks m unhover (Unhover h) @ [Cursor ''grab''])
           | None \<Rightarrow> (m, [])))"

text \<open>The body that \<^verbatim>\<open>onClick\<close> and \<^verbatim>\<open>onTouchEnd\<close> share, after the ray cast.\<close>

definition select_first :: "InteractionManager \<Rightarrow> Intersection list \<Rightarrow> InteractionManager \<times> Action list" where
  "select_first m intersections =
     (case intersections of
        first # _ \<Rightarrow>
          (case findNodeGroup (object first) of
             Some nodeGroup \<Rightarrow>
               (m\<lparr>selectedObject := Some nodeGroup\<rparr>,
                triggerCallbacks m click (Click nodeGroup first)
                @ triggerCallbacks m select (Select nodeGroup first))
           | None \<Rightarrow> (m, []))
      | [] \<Rightarrow> (m, []))"

definition onClick :: "InteractionManager \<Rightarrow> Intersection list \<Rightarrow> InteractionManager \<times> Action list" where
  "onClick m intersections = (if \<not> isEnabled m then (m, []) else select_first m intersections)"

text \<open>\<^verbatim>\<open>onTouchEnd\<close>: \<open>changed\<close> tells whether \<^verbatim>\<open>event.changedTouches\<close> holds a touch.\<close>

definition onTouchEnd :: "InteractionManager \<Rightarrow> bool \<Rightarrow> Intersection list \<Rightarrow> InteractionManager \<times> Action list" where
  "onTouchEnd m changed intersections =
     (if \<not> isEnabled m then (m, [])
      else if changed then select_first m intersections
      else (m, []))"

definition setEnabled :: "InteractionManager \<Rightarrow> bool \<Rightarrow> InteractionManager \<times> Action list" where
  "setEnabled m b =
     (let m1 = m\<lparr>isEnabled := b\<rparr>
      in if \<not> b
         then (case hoveredObject m1 of
                 Some h \<Rightarrow> (m1\<lparr>hoveredObject := None\<rparr>,
                            triggerCallbacks m1 unhover (Unhover h) @ [Cursor ''default''])
               | None \<Rightarrow> (m1, [Cursor ''default'']))
         else (m1, []))"

section \<open>The application's wiring of the two modules\<close>

text \<open>
  The application registers one listener on the \<^verbatim>\<open>select\<close> channel. For a node group it
  reads \<^verbatim>\<open>userData.index\<close> and calls its own \<^verbatim>\<open>navigateToNode\<close>, which returns when the
  application is not initialised and calls the controller's \<^verbatim>\<open>navigateToNode\<close> otherwise.
  The panel, the tooltip and the highlight it also drives are not modelled.
\<close>

record App =
  cameraController :: CameraController
  interactionManager :: InteractionManager
  isInitialized :: bool

definition app_navigateToNode :: "App \<Rightarrow> int \<Rightarrow> real \<Rightarrow> real \<Rightarrow> App \<times> Effect list" where
  "app_navigateToNode app ix t0 t1 =
     (if \<not> isInitialized app then (app, [])
      else let (c, moved) = navigateToNode (cameraController app) ix t0 t1
           in (app\<lparr>cameraController := c\<rparr>, moved))"

text \<open>The node groups the \<^verbatim>\<open>select\<close> listeners were called with, in order.\<close>

fun selected_nodes :: "Action list \<Rightarrow> Object3D list" where
  "selected_nodes [] = []"
| "selected_nodes (Call cb (Select n hit) # rest) = n # selected_nodes rest"
| "selected_nodes (_ # rest) = selected_nodes rest"

fun run_select_listener :: "App \<Rightarrow> Object3D list \<Rightarrow> real \<Rightarrow> real \<Rightarrow> App \<times> Effect list" where
  "run_select_listener app [] t0 t1 = (app, [])"
| "run_select_listener app (n # rest) t0 t1 =
     (let (app1, moved1) = app_navigateToNode app (userIndex n) t0 t1;
          (app2, moved2) = run_select_listener app1 rest t0 t1
      in (app2, moved1 @ moved2))"

text \<open>A click on the canvas: the manager's handler, then the application's listener.\<close>

definition app_onClick :: "App \<Rightarrow> Intersection list \<Rightarrow> real \<Rightarrow> real \<Rightarrow> App \<times> Action list \<times> Effect list" where
  "app_onClick app intersections t0 t1 =
     (let (m, acts) = onClick (interactionManager app) intersections;
          (app1, moved) = run_select_listener (app\<lparr>interactionManager := m\<rparr>)
                            (selected_nodes acts) t0 t1
      in (app1, acts, moved))"

section \<open>Input sequences and observations\<close>

text \<open>A number that is finite, and a finite number within a closed range.\<close>

fun is_num :: "jsnum \<Rightarrow> bool" where
  "is_num (Num a) = True"
| "is_num _ = False"

fun in_range :: "real \<Rightarrow> real \<Rightarrow> jsnum \<Rightarrow> bool" where
  "in_range lo hi (Num a) = (lo \<le> a \<and> a \<le> hi)"
| "in_range lo hi _ = False"

definition radius_in_range :: "CameraController \<Rightarrow> bool" where
  "radius_in_range s =
     in_range (minDistance (options s)) (maxDistance (options s)) (radius (spherical s))"

definition phi_in_range :: "CameraController \<Rightarrow> bool" where
  "phi_in_range s =
     in_range (minPolarAngle (options s)) (maxPolarAngle (options s)) (phi (spherical s))"

text \<open>The zoom inputs and the frame update, and a controller after a sequence of them.\<close>

datatype ZoomInput =
  Wheel real
| TouchStart "Touch list"
| TouchMove "Touch list"
| ZoomKey string
| Tick real

definition zoom_keys :: "string list" where
  "zoom_keys = [''+'', ''='', ''-'', ''_'']"

fun zoom_step :: "CameraController \<Rightarrow> ZoomInput \<Rightarrow> CameraController" where
  "zoom_step s (Wheel deltaY) = fst (onWheel s deltaY)"
| "zoom_step s (TouchStart touches) = onTouchStart s touches"
| "zoom_step s (TouchMove touches) = fst (onTouchMove s touches)"
| "zoom_step s (ZoomKey k) =
     (if k \<in> set zoom_keys then fst (onKeyDown s \<lparr>key = k, shiftKey = False\<rparr> 0 0) else s)"
| "zoom_step s (Tick delta) = update s delta"

text \<open>A two-finger move whose touches are at the same point.\<close>

fun coincident :: "ZoomInput \<Rightarrow> bool" where
  "coincident (TouchMove [t0, t1]) = (touch_distance t0 t1 = 0)"
| "coincident _ = False"

text \<open>The rotate inputs and the frame update, and a controller after a sequence of them.\<close>

datatype RotateInput =
  PointerDown PointerEvent
| PointerMove PointerEvent
| PointerUp PointerEvent
| Arrow string
| Frame real

definition arrow_keys :: "string list" where
  "arrow_keys = [''ArrowLeft'', ''ArrowRight'', ''ArrowUp'', ''ArrowDown'']"

fun rotate_step :: "CameraController \<Rightarrow> RotateInput \<Rightarrow> CameraController" where
  "rotate_step s (PointerDown e) = fst (onPointerDown s e)"
| "rotate_step s (PointerMove e) = onPointerMove s e"
| "rotate_step s (PointerUp e) = fst (onPointerUp s e)"
| "rotate_step s (Arrow k) =
     (if k \<in> set arrow_keys then fst (onKeyDown s \<lparr>key = k, shiftKey = False\<rparr> 0 0) else s)"
| "rotate_step s (Frame delta) = update s delta"

text \<open>
  The kinds of effect a navigation has: the listener calls, and the motion (the writes
  to the camera position and the target with their \<^verbatim>\<open>lookAt\<close>, the request of the next
  frame, the start of a GSAP tween).
\<close>

fun is_notification :: "Effect \<Rightarrow> bool" where
  "is_notification (NavigateCallback cb i nm) = True"
| "is_notification _ = False"

fun is_motion :: "Effect \<Rightarrow> bool" where
  "is_motion (SetCameraPosition v) = True"
| "is_motion (SetTarget v) = True"
| "is_motion (LookAt v) = True"
| "is_motion RequestAnimationFrame = True"
| "is_motion (GsapToCameraPosition v d) = True"
| "is_motion (GsapToTarget v d) = True"
| "is_motion _ = False"

text \<open>
  A key press at time \<open>t\<close> followed by the end of the transition it starts: the frame at
  which the fallback's time is up, or the completion of the GSAP tweens.
\<close>

definition duration_ms :: "CameraController \<Rightarrow> real" where
  "duration_ms s =
     (if reducedMotion (options s) then 0.1 else transitionDuration (options s)) * 1000"

definition complete_transition :: "CameraController \<Rightarrow> real \<Rightarrow> CameraController" where
  "complete_transition s now = (if gsap s then fst (gsapComplete s) else fst (onAnimationFrame s now))"

definition press_and_complete :: "CameraController \<Rightarrow> KeyboardEvent \<Rightarrow> real \<Rightarrow> CameraController" where
  "press_and_complete s event t =
     complete_transition (fst (onKeyDown s event t t)) (t + duration_ms s)"

text \<open>Some concrete values: the controller the application builds, and scene objects.\<close>

definition hub_controller :: CameraController where
  "hub_controller = init (new_CameraController (vec 0 0 50) default_options) False"

definition touch_at :: "real \<Rightarrow> real \<Rightarrow> Touch" where
  "touch_at a b = \<lparr>clientX = a, clientY = b\<rparr>"

definition work_group :: Object3D where
  "work_group = Object3D 2 True 2 None"

definition work_core :: Object3D where
  "work_core = Object3D 12 False 0 (Some work_group)"

definition loose_mesh :: Object3D where
  "loose_mesh = Object3D 99 False 0 None"

definition hit :: "Object3D \<Rightarrow> Intersection" where
  "hit obj = \<lparr>object = obj, point = vec 0 0 0\<rparr>"

text \<open>
  What the rotate inputs and the update keep: the controller is enabled and idle, the
  polar angle is a number or an infinity, and the pending polar delta is finite.
\<close>

definition rot_inv :: "CameraController \<Rightarrow> bool" where
  "rot_inv s =
     (enabled s \<and> \<not> isTransitioning s \<and> phi (spherical s) \<noteq> NaN
      \<and> is_num (phi (sphericalDelta s)))"

text \<open>The listener calls of a navigation to node \<open>i\<close>, in the order of the listener list.\<close>

definition notifications :: "CameraController \<Rightarrow> int \<Rightarrow> Effect list" where
  "notifications s i =
     map (\<lambda>cb. NavigateCallback cb i (node_name (nodePositions ! nat i))) (onNavigateCallbacks s)"

text \<open>The Tab key, and the application's controller with reduced motion switched on.\<close>

definition tab_key :: KeyboardEvent where
  "tab_key = \<lparr>key = ''Tab'', shiftKey = False\<rparr>"

definition reduced_controller :: CameraController where
  "reduced_controller = setReducedMotion hub_controller True"

section \<open>Scene objects, keys and states used in the statements\<close>

text \<open>
  The chain of ancestors of an object, itself first; the entity a hover resolution
  yields (the node group of the first intersection, none when nothing is hit); the
  listener calls among a handler's actions; a manager with one listener on each of the
  channels \<^verbatim>\<open>hover\<close>, \<^verbatim>\<open>unhover\<close> and \<^verbatim>\<open>select\<close>, and the same manager once the pointer
  rests on the core mesh of the Work node.
\<close>

fun chain :: "Object3D \<Rightarrow> Object3D list" where
  "chain (Object3D i n ix p) =
     Object3D i n ix p # (case p of None \<Rightarrow> [] | Some q \<Rightarrow> chain q)"

definition resolve :: "Intersection list \<Rightarrow> Object3D option" where
  "resolve intersections =
     (case intersections of [] \<Rightarrow> None | first # _ \<Rightarrow> findNodeGroup (object first))"

fun is_call :: "Action \<Rightarrow> bool" where
  "is_call (Call cb e) = True"
| "is_call _ = False"

definition listening_manager :: InteractionManager where
  "listening_manager = on (on (on new_InteractionManager hover 0) unhover 1) select 2"

definition hovering_manager :: InteractionManager where
  "hovering_manager = fst (checkHover listening_manager [hit work_core])"

text \<open>
  The keys that trigger a navigation (a digit from 1 to 5, Home, Tab), and the
  application while its controller is in a transition to the About node.
\<close>

definition nav_key :: "KeyboardEvent \<Rightarrow> bool" where
  "nav_key e = ((''1'' \<le> key e \<and> key e \<le> ''5'') \<or> key e = ''Home'' \<or> key e = ''Tab'')"

definition busy_app :: App where
  "busy_app = \<lparr>cameraController = fst (navigateToNode hub_controller 1 0 0),
               interactionManager = listening_manager, isInitialized = True\<rparr>"

section \<open>Positions along a transition\<close>

text \<open>
  A coordinate is whole when it is an integer of magnitude at most \<open>2\<^sup>5\<^sup>1\<close>: the sums, the
  differences and the halves of two such numbers are doubles, so an interpolation
  between two of them at 0, at 1/2 or at 1 rounds nothing. All coordinates of the five
  nodes are whole. The midpoint of two vectors is the one of real arithmetic.
  \<open>run_frames\<close> runs the animation frames at the given clock readings, in order.
\<close>

fun whole :: "jsnum \<Rightarrow> bool" where
  "whole (Num x) = (of_int \<lfloor>x\<rfloor> = x \<and> \<bar>x\<bar> \<le> 2 ^ 51)"
| "whole _ = False"

definition whole_vector :: "Vector3 \<Rightarrow> bool" where
  "whole_vector v = (whole (vx v) \<and> whole (vy v) \<and> whole (vz v))"

definition midpoint :: "Vector3 \<Rightarrow> Vector3 \<Rightarrow> Vector3" where
  "midpoint v1 v2 =
     Vector3 (js_div (js_add (vx v1) (vx v2)) (Num 2)) (js_div (js_add (vy v1) (vy v2)) (Num 2))
       (js_div (js_add (vz v1) (vz v2)) (Num 2))"

text \<open>
  A coordinate is in the scene when it is a number of magnitude at most \<open>2\<^sup>5\<^sup>1\<close>, whole or
  not. \<open>arrives a b r\<close> says that the coordinate \<open>r\<close>, reached from \<open>a\<close> on the way to \<open>b\<close>,
  is \<open>b\<close> up to the rounding of the three operations of the interpolation: it differs
  from \<open>b\<close> by at most \<open>(\<bar>a\<bar> + \<bar>b\<bar>) / 2\<^sup>5\<^sup>1\<close> plus four times \<open>2\<^bsup>-1075\<^esup>\<close>, which is half the
  least positive double and the most that a rounding among the subnormal numbers loses.
\<close>

fun in_scene :: "jsnum \<Rightarrow> bool" where
  "in_scene (Num x) = (\<bar>x\<bar> \<le> 2 ^ 51)"
| "in_scene _ = False"

definition in_scene_vector :: "Vector3 \<Rightarrow> bool" where
  "in_scene_vector v = (in_scene (vx v) \<and> in_scene (vy v) \<and> in_scene (vz v))"

fun arrives :: "jsnum \<Rightarrow> jsnum \<Rightarrow> jsnum \<Rightarrow> bool" where
  "arrives (Num a) (Num b) (Num r) =
     (\<bar>r - b\<bar> \<le> (\<bar>a\<bar> + \<bar>b\<bar>) / 2 ^ 51 + 4 * 2 powr (- 1075))"
| "arrives _ _ _ = False"

definition arrives_vector :: "Vector3 \<Rightarrow> Vector3 \<Rightarrow> Vector3 \<Rightarrow> bool" where
  "arrives_vector v1 v2 v =
     (arrives (vx v1) (vx v2) (vx v) \<and> arrives (vy v1) (vy v2) (vy v)
      \<and> arrives (vz v1) (vz v2) (vz v))"

definition run_frames :: "CameraController \<Rightarrow> real list \<Rightarrow> CameraController" where
  "run_frames s frames = foldl (\<lambda>c now. fst (onAnimationFrame c now)) s frames"

text \<open>
  The controller after \<^verbatim>\<open>navigateToNode(i)\<close> called at time \<open>t0\<close> (its first \<^verbatim>\<open>animate\<close>
  reading the clock at \<open>t1\<close>), then the animation frames at the times \<open>frames\<close>, then
  the frame at time \<open>now\<close>.
\<close>

definition frame_after :: "CameraController \<Rightarrow> int \<Rightarrow> real \<Rightarrow> real \<Rightarrow> real list \<Rightarrow> real
    \<Rightarrow> CameraController" where
  "frame_after s i t0 t1 frames now =
     fst (onAnimationFrame (run_frames (fst (navigateToNode s i t0 t1)) frames) now)"

text \<open>
  A controller built for a camera at \<^verbatim>\<open>(-49.999, 0, 50)\<close>: the first coordinate is the
  double nearest to \<^verbatim>\<open>-49.999\<close>, which is \<open>- 7036733680278045 / 2\<^sup>4\<^sup>7\<close>.
\<close>

definition away_controller :: CameraController where
  "away_controller =
     init (new_CameraController (vec (- 7036733680278045 / 2 ^ 47) 0 50) default_options) False"

section \<open>Taps, and an application with a disabled controller\<close>

text \<open>
  A tap on the canvas, wired as the click is, and the application with an idle
  controller whose \<^verbatim>\<open>enabled\<close> flag is off.
\<close>

definition app_onTouchEnd :: "App \<Rightarrow> bool \<Rightarrow> Intersection list \<Rightarrow> real \<Rightarrow> real
    \<Rightarrow> App \<times> Action list \<times> Effect list" where
  "app_onTouchEnd app changed intersections t0 t1 =
     (let (m, acts) = onTouchEnd (interactionManager app) changed intersections;
          (app1, moved) = run_select_listener (app\<lparr>interactionManager := m\<rparr>)
                            (selected_nodes acts) t0 t1
      in (app1, acts, moved))"

definition frozen_app :: App where
  "frozen_app = \<lparr>cameraController = hub_controller\<lparr>enabled := False\<rparr>,
                  interactionManager = listening_manager, isInitialized = True\<rparr>"

section \<open>Facts about JavaScript numbers\<close>

lemma js_sub_Num [simp]: "js_sub (Num a) (Num b) = Num (a - b)"
  by (simp add: js_sub_def)

lemma js_min_Num [simp]: "js_min (Num a) (Num b) = Num (min a b)"
  by (simp add: js_min_def min_def)

lemma js_max_Num [simp]: "js_max (Num a) (Num b) = Num (max a b)"
  by (simp add: js_max_def max_def)

lemma clamp_in_range:
  assumes "lo \<le> hi" and "v \<noteq> NaN"
  shows "in_range lo hi (js_max (Num lo) (js_min (Num hi) v))"
  using assms by (cases v) (simp_all add: js_min_def js_max_def)

lemma in_range_cases: "in_range lo hi v \<Longrightarrow> \<exists>a. v = Num a \<and> lo \<le> a \<and> a \<le> hi"
  by (cases v) simp_all

section \<open>Facts about rounding\<close>

lemma rhe_of_int [simp]: "rhe (of_int n) = n"
  by (simp add: rhe_def)

lemma rhe_abs_le:
  assumes "\<bar>y\<bar> < 2 ^ 53"
  shows "\<bar>real_of_int (rhe y)\<bar> \<le> 2 ^ 53"
proof -
  have "- (2 ^ 53) \<le> \<lfloor>y\<rfloor>" "\<lfloor>y\<rfloor> < 2 ^ 53"
    using assms by (simp_all add: le_floor_iff floor_less_iff abs_less_iff)
  moreover have "\<lfloor>y\<rfloor> \<le> rhe y" "rhe y \<le> \<lfloor>y\<rfloor> + 1"
    by (simp_all add: rhe_def Let_def)
  ultimately have "- (2 ^ 53) \<le> rhe y" "rhe y \<le> 2 ^ 53" by linarith+
  then have "- (2 ^ 53) \<le> real_of_int (rhe y)" "real_of_int (rhe y) \<le> 2 ^ 53"
    by (metis of_int_le_iff of_int_minus of_int_numeral of_int_power)+
  then show ?thesis by (simp add: abs_le_iff)
qed

lemma two_powr_shift: "(2::real) powr (real_of_int (j - int k)) = 2 powr (real_of_int j) / 2 ^ k"
proof -
  have "(2::real) powr (real_of_int (j - int k)) = 2 powr (real_of_int j - real k)" by simp
  also have "\<dots> = 2 powr (real_of_int j) / 2 powr (real k)" by (rule powr_diff)
  also have "\<dots> = 2 powr (real_of_int j) / 2 ^ k" by (simp only: powr_realpow[of 2 k, simplified])
  finally show ?thesis .
qed

lemma floor_log2_binade:
  assumes "2 ^ 52 \<le> \<bar>x\<bar> * 2 ^ k" and "\<bar>x\<bar> * 2 ^ k < 2 ^ 53"
  shows "\<lfloor>log 2 \<bar>x\<bar>\<rfloor> = 52 - int k"
proof -
  have pos: "0 < \<bar>x\<bar>" using assms(1) by (cases "x = 0") simp_all
  have a: "(2::real) powr (real_of_int (52 - int k)) = 2 ^ 52 / 2 ^ k"
    using two_powr_shift[of 52 k] by simp
  have b: "(2::real) powr (real_of_int (52 - int k + 1)) = 2 ^ 53 / 2 ^ k"
    using two_powr_shift[of 53 k] by (simp add: algebra_simps)
  have "2 powr (real_of_int (52 - int k)) \<le> \<bar>x\<bar>"
    unfolding a using assms(1) by (simp add: field_simps)
  moreover have "\<bar>x\<bar> < 2 powr (real_of_int (52 - int k + 1))"
    unfolding b using assms(2) by (simp add: field_simps)
  ultimately show ?thesis
    using floor_log_eq_powr_iff[OF pos, of 2 "52 - int k"] by simp
qed

text \<open>
  A number whose magnitude, scaled by \<open>2\<^sup>k\<close>, lies between \<open>2\<^sup>5\<^sup>2\<close> and \<open>2\<^sup>5\<^sup>3\<close> is rounded to
  a multiple of \<open>2\<^bsup>-k\<^esup>\<close>, and is a double when it is such a multiple.
\<close>

lemma fl_binade:
  assumes "2 ^ 52 \<le> \<bar>x\<bar> * 2 ^ k" and "\<bar>x\<bar> * 2 ^ k < 2 ^ 53" and "k \<le> 1074"
  shows "fl x = Num (of_int (rhe (x * 2 ^ k)) / 2 ^ k)"
proof -
  have x0: "x \<noteq> 0" using assms(1) by auto
  have e: "max \<lfloor>log 2 \<bar>x\<bar>\<rfloor> (- 1022) = 52 - int k"
    using floor_log2_binade[OF assms(1,2)] assms(3) by simp
  have q: "(2::real) powr (real_of_int (52 - int k) - 52) = 1 / 2 ^ k"
    using two_powr_shift[of 0 k] by simp
  have "\<bar>x * 2 ^ k\<bar> < 2 ^ 53" using assms(2) by (simp add: abs_mult)
  from rhe_abs_le[OF this] have r: "\<bar>real_of_int (rhe (x * 2 ^ k))\<bar> \<le> 2 ^ 53" .
  have "\<bar>real_of_int (rhe (x * 2 ^ k))\<bar> * 1 \<le> \<bar>real_of_int (rhe (x * 2 ^ k))\<bar> * 2 ^ k"
    by (rule mult_left_mono) simp_all
  then have "\<bar>real_of_int (rhe (x * 2 ^ k))\<bar> / 2 ^ k \<le> \<bar>real_of_int (rhe (x * 2 ^ k))\<bar>"
    by (simp add: field_simps)
  with r have "\<bar>real_of_int (rhe (x * 2 ^ k))\<bar> / 2 ^ k \<le> 2 ^ 53" by linarith
  moreover have "(2::real) ^ 53 < 2 powr 1024"
  proof -
    have "(2::real) powr (real (53::nat)) = 2 ^ 53" by (rule powr_realpow) simp
    moreover have "(2::real) powr (real (53::nat)) < 2 powr 1024"
      by (rule powr_less_mono) simp_all
    ultimately show ?thesis by simp
  qed
  ultimately have no: "\<not> 2 powr 1024 \<le> \<bar>real_of_int (rhe (x * 2 ^ k)) * (1 / 2 ^ k)\<bar>"
    by (simp add: abs_mult)
  have d: "x / (1 / 2 ^ k) = x * 2 ^ k" by simp
  show ?thesis
    unfolding fl_def Let_def e q d using x0 no by simp
qed

lemma fl_exact:
  assumes "2 ^ 52 \<le> \<bar>x\<bar> * 2 ^ k" and "\<bar>x\<bar> * 2 ^ k < 2 ^ 53" and "k \<le> 1074"
    and "x * 2 ^ k = of_int n"
  shows "fl x = Num x"
proof -
  have "of_int (rhe (x * 2 ^ k)) / 2 ^ k = x"
    unfolding assms(4) rhe_of_int using assms(4) by (simp add: field_simps)
  with fl_binade[OF assms(1-3)] show ?thesis by simp
qed

lemma normalise:
  fixes m :: nat
  assumes "0 < m" "m < 2 ^ 53"
  shows "\<exists>k. 2 ^ 52 \<le> m * 2 ^ k \<and> m * 2 ^ k < 2 ^ 53"
  using assms
proof (induction "2 ^ 53 - m" arbitrary: m rule: less_induct)
  case less
  show ?case
  proof (cases "2 ^ 52 \<le> m")
    case True
    then show ?thesis using less.prems by (intro exI[of _ 0]) simp
  next
    case False
    then have a: "2 * m < 2 ^ 53" by simp
    have b: "2 ^ 53 - 2 * m < 2 ^ 53 - m" using less.prems False by simp
    have c: "0 < 2 * m" using less.prems by simp
    from less.hyps[OF b c a] obtain k
      where "2 ^ 52 \<le> 2 * m * 2 ^ k \<and> 2 * m * 2 ^ k < 2 ^ 53" by blast
    then show ?thesis by (intro exI[of _ "Suc k"]) (simp add: mult_ac)
  qed
qed

text \<open>An integer below \<open>2\<^sup>5\<^sup>3\<close> in magnitude, divided by a power of two, is a double.\<close>

lemma fl_dyadic:
  assumes "\<bar>n\<bar> < 2 ^ 53" and "j \<le> 1000"
  shows "fl (of_int n / 2 ^ j) = Num (of_int n / 2 ^ j)"
proof (cases "n = 0")
  case True
  then show ?thesis by (simp add: fl_def)
next
  case False
  define m where "m = nat \<bar>n\<bar>"
  have m: "0 < m" "m < 2 ^ 53" "int m = \<bar>n\<bar>"
    using False assms(1) by (simp_all add: m_def nat_less_iff)
  from normalise[OF m(1,2)] obtain k
    where k: "2 ^ 52 \<le> m * 2 ^ k" "m * 2 ^ k < 2 ^ 53" by blast
  have "2 ^ k \<le> m * 2 ^ k" using m(1) by simp
  with k(2) have "(2::nat) ^ k < 2 ^ 53" by linarith
  then have kb: "k < 53" by (rule power_less_imp_less_exp[rotated]) simp
  have r: "real m = \<bar>real_of_int n\<bar>" using m(3) by (metis of_int_abs of_int_of_nat_eq)
  have "real (2 ^ 52) \<le> real (m * 2 ^ k)" "real (m * 2 ^ k) < real (2 ^ 53)"
    using k by (simp_all only: of_nat_le_iff of_nat_less_iff)
  then have rk: "2 ^ 52 \<le> \<bar>real_of_int n\<bar> * 2 ^ k" "\<bar>real_of_int n\<bar> * 2 ^ k < 2 ^ 53"
    by (simp_all add: r)
  have e: "\<bar>real_of_int n / 2 ^ j\<bar> * 2 ^ (k + j) = \<bar>real_of_int n\<bar> * 2 ^ k"
    by (simp add: power_add abs_mult)
  have e': "real_of_int n / 2 ^ j * 2 ^ (k + j) = of_int (n * 2 ^ k)"
    by (simp add: power_add)
  have b: "k + j \<le> 1074" using kb assms(2) by simp
  show ?thesis
  proof (rule fl_exact[where k = "k + j" and n = "n * 2 ^ k"])
    show "2 ^ 52 \<le> \<bar>real_of_int n / 2 ^ j\<bar> * 2 ^ (k + j)" unfolding e by (rule rk(1))
    show "\<bar>real_of_int n / 2 ^ j\<bar> * 2 ^ (k + j) < 2 ^ 53" unfolding e by (rule rk(2))
    show "k + j \<le> 1074" by (rule b)
    show "real_of_int n / 2 ^ j * 2 ^ (k + j) = real_of_int (n * 2 ^ k)" by (rule e')
  qed
qed

lemma fl_of_int: "\<bar>n\<bar> < 2 ^ 53 \<Longrightarrow> fl (of_int n) = Num (of_int n)"
  using fl_dyadic[of n 0] by simp

lemma fl_half: "\<bar>n\<bar> < 2 ^ 53 \<Longrightarrow> fl (of_int n / 2) = Num (of_int n / 2)"
  using fl_dyadic[of n 1] by simp

text \<open>
  The rounding error: at most half a unit in the last place, which is at most the
  \<open>2\<^sup>5\<^sup>3\<close>-th part of the number, or \<open>2\<^bsup>-1075\<^esup>\<close> among the subnormal numbers.
\<close>

lemma rhe_err: "\<bar>real_of_int (rhe y) - y\<bar> \<le> 1 / 2"
proof -
  have "real_of_int \<lfloor>y\<rfloor> \<le> y" "y < real_of_int \<lfloor>y\<rfloor> + 1" by linarith+
  then show ?thesis by (auto simp: rhe_def Let_def abs_le_iff)
qed

lemma fl_err:
  assumes "\<bar>x\<bar> < 2 ^ 53"
  shows "\<exists>r. fl x = Num r \<and> \<bar>r - x\<bar> \<le> \<bar>x\<bar> / 2 ^ 53 + 2 powr (- 1075)"
proof (cases "x = 0")
  case True
  then show ?thesis by (simp add: fl_def)
next
  case False
  define l where "l = \<lfloor>log 2 \<bar>x\<bar>\<rfloor>"
  define e where "e = max l (- 1022)"
  define q :: real where "q = 2 powr (of_int e - 52)"
  define r :: real where "r = of_int (rhe (x / q)) * q"
  have xp: "0 < \<bar>x\<bar>" using False by simp
  have q0: "0 < q" by (simp add: q_def)
  have lx: "2 powr (of_int l) \<le> \<bar>x\<bar>"
  proof -
    have "of_int l \<le> log 2 \<bar>x\<bar>" unfolding l_def by linarith
    then have "2 powr (of_int l) \<le> 2 powr (log 2 \<bar>x\<bar>)" by (simp add: powr_mono)
    then show ?thesis using xp by simp
  qed
  have p53: "(2::real) powr 53 = 2 ^ 53"
    using powr_realpow[of 2 53] by simp
  have l53: "l < 53"
  proof (rule ccontr)
    assume "\<not> l < 53"
    then have "(53::real) \<le> of_int l" by simp
    then have "(2::real) powr 53 \<le> 2 powr (of_int l)" by (intro powr_mono) simp_all
    with lx assms p53 show False by linarith
  qed
  have e52: "of_int e - 52 \<le> (0::real)" using l53 by (simp add: e_def)
  have q1: "q \<le> 1"
  proof -
    have "2 powr (of_int e - 52) \<le> (2::real) powr 0" using e52 by (intro powr_mono) simp_all
    then show ?thesis by (simp add: q_def)
  qed
  have err: "\<bar>r - x\<bar> \<le> q / 2"
  proof -
    have "r - x = (of_int (rhe (x / q)) - x / q) * q" using q0 by (simp add: r_def field_simps)
    then have "\<bar>r - x\<bar> = \<bar>of_int (rhe (x / q)) - x / q\<bar> * q" using q0 by (simp add: abs_mult)
    also have "\<dots> \<le> 1 / 2 * q" using rhe_err[of "x / q"] q0 by (intro mult_right_mono) simp_all
    finally show ?thesis by simp
  qed
  have big: "(2::real) ^ 53 + 1 < 2 powr 1024"
  proof -
    have "(2::real) ^ 53 + 1 < 2 ^ 54" by simp
    also have "\<dots> = 2 powr 54" using powr_realpow[of 2 54] by simp
    also have "\<dots> < 2 powr 1024" by (intro powr_less_mono) simp_all
    finally show ?thesis .
  qed
  have "\<bar>r\<bar> \<le> \<bar>x\<bar> + q / 2" using err by linarith
  with assms q1 big have no: "\<not> 2 powr 1024 \<le> \<bar>r\<bar>" by linarith
  have f: "fl x = Num r"
    using False no unfolding fl_def Let_def l_def[symmetric] e_def[symmetric] q_def[symmetric]
      r_def[symmetric] by simp
  have "q / 2 \<le> \<bar>x\<bar> / 2 ^ 53 + 2 powr (- 1075)"
  proof (cases "- 1022 \<le> l")
    case True
    then have "e = l" by (simp add: e_def)
    then have "q = 2 powr (of_int l) / 2 powr 52" by (simp add: q_def powr_diff)
    also have "\<dots> = 2 powr (of_int l) / 2 ^ 52" using powr_realpow[of 2 52] by simp
    finally have "q / 2 = 2 powr (of_int l) / 2 ^ 53" by simp
    also have "\<dots> \<le> \<bar>x\<bar> / 2 ^ 53" using lx by (simp add: divide_right_mono)
    finally have "q / 2 \<le> \<bar>x\<bar> / 2 ^ 53" .
    moreover have "(0::real) \<le> 2 powr (- 1075)" by simp
    ultimately show ?thesis by linarith
  next
    case False
    then have "e = - 1022" by (simp add: e_def)
    then have "q = 2 powr (- 1074)" by (simp add: q_def)
    also have "\<dots> = 2 powr (- 1075 + 1)" by simp
    also have "\<dots> = 2 powr (- 1075) * 2" by (simp only: powr_add) simp
    finally have "q / 2 = 2 powr (- 1075)" by simp
    then show ?thesis by simp
  qed
  with err have "\<bar>r - x\<bar> \<le> \<bar>x\<bar> / 2 ^ 53 + 2 powr (- 1075)" by linarith
  with f show ?thesis by blast
qed

lemma whole_int: "whole (Num x) \<Longrightarrow> \<exists>n. x = of_int n \<and> \<bar>n\<bar> \<le> 2 ^ 51"
proof -
  assume "whole (Num x)"
  then have x: "of_int \<lfloor>x\<rfloor> = x" and b: "\<bar>x\<bar> \<le> 2 ^ 51" by simp_all
  from b have "\<bar>real_of_int \<lfloor>x\<rfloor>\<bar> \<le> real_of_int (2 ^ 51)" unfolding x by simp
  then have "\<bar>\<lfloor>x\<rfloor>\<bar> \<le> 2 ^ 51" by (simp only: of_int_abs[symmetric] of_int_le_iff)
  with x[symmetric] show ?thesis by blast
qed

text \<open>
  The interpolation between two whole coordinates: the start at 0, the mean at 1/2, the
  end at 1.
\<close>

lemma lerp_whole:
  assumes "whole a" and "whole b"
  shows "lerp a b (Num 0) = a"
    and "lerp a b (Num (1 / 2)) = js_div (js_add a b) (Num 2)"
    and "lerp a b (Num 1) = b"
proof -
  from assms obtain x y where ab: "a = Num x" "b = Num y" by (cases a; cases b) simp_all
  from assms whole_int[of x] whole_int[of y] obtain i j
    where ij: "x = of_int i" "\<bar>i\<bar> \<le> 2 ^ 51" "y = of_int j" "\<bar>j\<bar> \<le> 2 ^ 51"
    unfolding ab by blast
  have bd: "\<bar>i\<bar> < 2 ^ 53" "\<bar>j\<bar> < 2 ^ 53" "\<bar>j - i\<bar> < 2 ^ 53" "\<bar>i + j\<bar> < 2 ^ 53"
    using ij(2,4) by simp_all
  have d: "fl (y - x) = Num (y - x)"
    using fl_of_int[OF bd(3)] by (simp add: ij)
  have z: "fl 0 = Num 0" by (simp add: fl_def)
  have fx: "fl x = Num x" using fl_of_int[OF bd(1)] by (simp add: ij)
  have fy: "fl y = Num y" using fl_of_int[OF bd(2)] by (simp add: ij)
  have h: "fl ((y - x) * (1 / 2)) = Num ((y - x) / 2)"
    using fl_half[OF bd(3)] by (simp add: ij)
  have m: "fl (x + (y - x) / 2) = Num ((x + y) / 2)"
  proof -
    have e1: "x + (y - x) / 2 = of_int (i + j) / 2" by (simp add: ij field_simps)
    have e2: "(x + y) / 2 = of_int (i + j) / 2" by (simp add: ij)
    show ?thesis unfolding e1 e2 by (rule fl_half[OF bd(4)])
  qed
  show "lerp a b (Num 0) = a" by (simp add: lerp_def ab js_sub_def d z fx)
  show "lerp a b (Num (1 / 2)) = js_div (js_add a b) (Num 2)"
    using h m by (simp add: lerp_def ab js_sub_def d)
  show "lerp a b (Num 1) = b" by (simp add: lerp_def ab js_sub_def d fy)
qed

lemma lerpVectors_whole:
  assumes "whole_vector v1" and "whole_vector v2"
  shows "lerpVectors v1 v2 (Num 0) = v1"
    and "lerpVectors v1 v2 (Num (1 / 2)) = midpoint v1 v2"
    and "lerpVectors v1 v2 (Num 1) = v2"
  using assms by (simp_all add: lerpVectors_def midpoint_def whole_vector_def lerp_whole)

lemma whole_numeral [simp]:
  "whole (Num 0)"
  "numeral n \<le> (2 ^ 51 :: real) \<Longrightarrow> whole (Num (numeral n))"
  "numeral n \<le> (2 ^ 51 :: real) \<Longrightarrow> whole (Num (- numeral n))"
  by simp_all

lemma whole_vector_vec [simp]:
  "whole_vector (vec a b c) \<longleftrightarrow> whole (Num a) \<and> whole (Num b) \<and> whole (Num c)"
  by (simp add: whole_vector_def vec_def)

lemma whole_in_scene: "whole a \<Longrightarrow> in_scene a"
  by (cases a) simp_all

lemma whole_vector_in_scene: "whole_vector v \<Longrightarrow> in_scene_vector v"
  by (simp add: whole_vector_def in_scene_vector_def whole_in_scene)

lemma in_scene_vector_vec [simp]:
  "in_scene_vector (vec a b c) \<longleftrightarrow> \<bar>a\<bar> \<le> 2 ^ 51 \<and> \<bar>b\<bar> \<le> 2 ^ 51 \<and> \<bar>c\<bar> \<le> 2 ^ 51"
  by (simp add: in_scene_vector_def vec_def)

lemma midpoint_vec [simp]:
  "midpoint (vec a b c) (vec a' b' c') = vec ((a + a') / 2) ((b + b') / 2) ((c + c') / 2)"
  by (simp add: midpoint_def vec_def)

section \<open>The controller the application builds\<close>

lemma hub_spherical:
  "spherical hub_controller = \<lparr>radius = Num 50, phi = Num (pi / 2), theta = Num 0\<rparr>"
  by (simp add: hub_controller_def init_def updateSphericalFromCamera_def
      new_CameraController_def setFromVector3_def v_sub_def vec_def atan2_def Let_def)

lemma hub_fields [simp]:
  "options hub_controller = default_options"
  "enabled hub_controller"
  "\<not> isTransitioning hub_controller"
  "touchState hub_controller = \<lparr>initialDistance = 0, currentDistance = 0\<rparr>"
  "\<not> gsap hub_controller"
  "currentNodeIndex hub_controller = 0"
  "camera_position hub_controller = vec 0 0 50"
  "target hub_controller = vec 0 0 0"
  "onNavigateCallbacks hub_controller = []"
  "transition hub_controller = None"
  by (simp_all add: hub_controller_def init_def updateSphericalFromCamera_def
      new_CameraController_def)

section \<open>Zoom: the distance clamp\<close>

lemma options_zoom_step [simp]: "options (zoom_step s i) = options s"
  by (cases i)
     (auto simp: onWheel_def onTouchStart_def onTouchMove_def onKeyDown_def update_def Let_def
           zoom_keys_def split: list.splits prod.splits)

lemma zoom_step_in_range:
  assumes "radius_in_range s" and "\<not> coincident i"
  shows "radius_in_range (zoom_step s i)"
proof -
  from assms(1) obtain a where a: "radius (spherical s) = Num a"
      "minDistance (options s) \<le> a" "a \<le> maxDistance (options s)"
    unfolding radius_in_range_def by (blast dest: in_range_cases)
  then have le: "minDistance (options s) \<le> maxDistance (options s)" by simp
  show ?thesis
  proof (cases i)
    case (Wheel deltaY)
    then show ?thesis using a le assms(1)
      by (simp add: onWheel_def radius_in_range_def clamp_zoom_def Let_def)
  next
    case (TouchStart ts)
    then show ?thesis using assms(1)
      by (simp add: onTouchStart_def radius_in_range_def split: list.splits)
  next
    case (TouchMove ts)
    then show ?thesis using a le assms
      by (auto simp: onTouchMove_def radius_in_range_def clamp_zoom_def Let_def
               split: list.splits)
  next
    case (ZoomKey k)
    then show ?thesis using a le assms(1)
      by (auto simp: onKeyDown_def radius_in_range_def zoom_keys_def Let_def)
  next
    case (Tick d)
    then show ?thesis using assms(1)
      by (auto simp: update_def radius_in_range_def Let_def split: prod.splits)
  qed
qed

text \<open>
  The clamp holds along every sequence of wheel, pinch and keyboard zoom inputs and
  frame updates in which no two-finger move has both touches at the same point: a
  radius that starts within \<open>[minDistance, maxDistance]\<close> stays there. The \<^verbatim>\<open>+\<close> key
  clamps from below only and the \<^verbatim>\<open>-\<close> key from above only, which is enough for a radius
  that was in range before the key.
\<close>

theorem zoom_range_invariant:
  "radius_in_range s \<Longrightarrow> \<forall>i \<in> set inputs. \<not> coincident i
   \<Longrightarrow> radius_in_range (foldl zoom_step s inputs)"
  by (induction inputs arbitrary: s) (simp_all add: zoom_step_in_range)

theorem zoom_range_invariant_witness:
  "radius_in_range hub_controller \<and>
   radius_in_range (foldl zoom_step hub_controller
      [Wheel 120, ZoomKey ''+'', TouchStart [touch_at 0 0, touch_at 30 40],
       TouchMove [touch_at 0 0, touch_at 60 80], ZoomKey ''_'', Tick 0.016])"
proof -
  have r: "radius_in_range hub_controller"
    by (simp add: radius_in_range_def hub_spherical default_options_def)
  have "sqrt (60 * 60 + 80 * 80) \<noteq> 0" by simp
  then have n: "\<forall>i \<in> set [Wheel 120, ZoomKey ''+'', TouchStart [touch_at 0 0, touch_at 30 40],
       TouchMove [touch_at 0 0, touch_at 60 80], ZoomKey ''_'', Tick 0.016]. \<not> coincident i"
    by (simp add: touch_distance_def touch_at_def)
  from zoom_range_invariant[OF r n] r show ?thesis by simp
qed

text \<open>
  Claim C1: along every sequence of zoom inputs (wheel, pinch, keyboard) the radius
  stays within \<open>[minDistance, maxDistance]\<close> after every zoom application and every
  update. The pinch path breaks it. When both touches of a two-finger move are at the
  same point, \<^verbatim>\<open>currentDistance\<close> is zero; after a two-finger touch start at that point
  \<^verbatim>\<open>initialDistance\<close> is zero as well, the ratio is \<^verbatim>\<open>0 / 0 = NaN\<close>, the radius becomes
  \<^verbatim>\<open>NaN\<close>, and \<^verbatim>\<open>Math.max(minDistance, Math.min(maxDistance, NaN))\<close> is \<^verbatim>\<open>NaN\<close>: the clamp
  does not bring it back. The controller starts at radius 50, within \<open>[20, 100]\<close>.
\<close>

theorem pinch_coincident_touches_NaN:
  "radius_in_range hub_controller
   \<and> radius (spherical (foldl zoom_step hub_controller
        [TouchStart [touch_at 100 100, touch_at 100 100],
         TouchMove [touch_at 100 100, touch_at 100 100]])) = NaN
   \<and> \<not> radius_in_range (foldl zoom_step hub_controller
        [TouchStart [touch_at 100 100, touch_at 100 100],
         TouchMove [touch_at 100 100, touch_at 100 100]])"
  by (simp add: radius_in_range_def hub_spherical default_options_def onTouchStart_def
      onTouchMove_def touch_distance_def touch_at_def clamp_zoom_def signed_inf_def
      js_min_def js_max_def Let_def)

section \<open>Rotation: the polar clamp\<close>

lemma is_num_cases: "is_num v \<Longrightarrow> \<exists>a. v = Num a"
  by (cases v) simp_all

lemma not_digit_arrow:
  "k \<in> set arrow_keys \<Longrightarrow> \<not> (''1'' \<le> k \<and> k \<le> ''5'')"
  by (auto simp: arrow_keys_def)

lemma options_rotate_step [simp]: "options (rotate_step s i) = options s"
  by (cases i)
     (auto simp: onPointerDown_def onPointerMove_def onPointerUp_def onKeyDown_def update_def
           add_theta_def add_phi_def arrow_keys_def Let_def split: prod.splits)

lemma update_phi_in_range:
  assumes "minPolarAngle (options s) \<le> maxPolarAngle (options s)" "rot_inv s"
  shows "phi_in_range (update s delta)"
proof -
  from assms(2) obtain d where d: "phi (sphericalDelta s) = Num d"
    unfolding rot_inv_def by (blast dest: is_num_cases)
  from assms(2) have n: "phi (spherical s) \<noteq> NaN" "enabled s" "\<not> isTransitioning s"
    unfolding rot_inv_def by simp_all
  have 1: "js_add (phi (spherical s)) (Num x) \<noteq> NaN" for x
    using n(1) by (cases "phi (spherical s)") simp_all
  show ?thesis
    using n d assms(1) 1
    by (auto simp: update_def phi_in_range_def Let_def clamp_in_range split: prod.splits)
qed

lemma update_rot_inv:
  assumes "minPolarAngle (options s) \<le> maxPolarAngle (options s)" "rot_inv s"
  shows "rot_inv (update s delta)"
proof -
  have "phi_in_range (update s delta)" by (rule update_phi_in_range[OF assms])
  then have p: "phi (spherical (update s delta)) \<noteq> NaN"
    unfolding phi_in_range_def by (auto dest: in_range_cases)
  from assms(2) obtain d where d: "phi (sphericalDelta s) = Num d"
    unfolding rot_inv_def by (blast dest: is_num_cases)
  have "is_num (phi (sphericalDelta (update s delta)))"
    using d assms(2) by (auto simp: update_def rot_inv_def Let_def split: prod.splits)
  moreover have "enabled (update s delta)" "\<not> isTransitioning (update s delta)"
    using assms(2) by (auto simp: update_def rot_inv_def Let_def split: prod.splits)
  ultimately show ?thesis using p by (simp add: rot_inv_def)
qed

lemma rotate_step_rot_inv:
  assumes "minPolarAngle (options s) \<le> maxPolarAngle (options s)" "rot_inv s"
  shows "rot_inv (rotate_step s i)"
proof (cases i)
  case (Frame d)
  then show ?thesis using update_rot_inv[OF assms] by simp
next
  case (PointerDown e)
  then show ?thesis using assms(2) by (auto simp: onPointerDown_def rot_inv_def)
next
  case (PointerMove e)
  then show ?thesis using assms(2)
    by (auto simp: onPointerMove_def rot_inv_def Let_def dest!: is_num_cases)
next
  case (PointerUp e)
  then show ?thesis using assms(2) by (auto simp: onPointerUp_def rot_inv_def)
next
  case (Arrow k)
  then show ?thesis using assms(2)
    by (auto simp: onKeyDown_def rot_inv_def add_theta_def add_phi_def arrow_keys_def Let_def dest!: is_num_cases)
qed

lemma rotate_run_rot_inv:
  "minPolarAngle (options s) \<le> maxPolarAngle (options s) \<Longrightarrow> rot_inv s
   \<Longrightarrow> rot_inv (foldl rotate_step s inputs) \<and> options (foldl rotate_step s inputs) = options s"
  by (induction inputs arbitrary: s) (simp_all add: rotate_step_rot_inv)

text \<open>
  Claim C2: on an enabled controller that is not in a transition, after any sequence of
  rotate inputs (pointer drag, arrow keys) and updates, the polar angle lies within
  \<open>[minPolarAngle, maxPolarAngle]\<close> right after every update, with damping on or off.
  The range is not empty, and the controller starts with a polar angle that is not
  \<^verbatim>\<open>NaN\<close> and a finite pending delta, as after construction.
\<close>

theorem polar_angle_clamped:
  assumes "minPolarAngle (options s) \<le> maxPolarAngle (options s)"
    and "enabled s" and "\<not> isTransitioning s"
    and "phi (spherical s) \<noteq> NaN" and "is_num (phi (sphericalDelta s))"
  shows "phi_in_range (update (foldl rotate_step s inputs) delta)"
proof -
  have "rot_inv s" using assms by (simp add: rot_inv_def)
  from rotate_run_rot_inv[OF assms(1) this, of inputs]
  have i: "rot_inv (foldl rotate_step s inputs)"
    and o: "options (foldl rotate_step s inputs) = options s" by simp_all
  from assms(1) o
  have "minPolarAngle (options (foldl rotate_step s inputs))
        \<le> maxPolarAngle (options (foldl rotate_step s inputs))" by simp
  from update_phi_in_range[OF this i] show ?thesis .
qed

lemma hub_delta: "sphericalDelta hub_controller = new_Spherical"
  by (simp add: hub_controller_def init_def updateSphericalFromCamera_def new_CameraController_def)

theorem polar_angle_clamped_witness:
  "minPolarAngle (options hub_controller) \<le> maxPolarAngle (options hub_controller)
   \<and> enabled hub_controller \<and> \<not> isTransitioning hub_controller
   \<and> phi (spherical hub_controller) \<noteq> NaN \<and> is_num (phi (sphericalDelta hub_controller))
   \<and> phi_in_range (update (foldl rotate_step hub_controller
        [PointerDown \<lparr>clientX = 10, clientY = 10, button = 0, pointerId = 1\<rparr>,
         PointerMove \<lparr>clientX = 10, clientY = 5000, button = 0, pointerId = 1\<rparr>,
         Frame 0.016, Arrow ''ArrowUp'',
         PointerUp \<lparr>clientX = 10, clientY = 5000, button = 0, pointerId = 1\<rparr>]) 0.016)"
proof -
  have m: "minPolarAngle (options hub_controller) \<le> maxPolarAngle (options hub_controller)"
    by (simp add: default_options_def)
  have p: "phi (spherical hub_controller) \<noteq> NaN" by (simp add: hub_spherical)
  have d: "is_num (phi (sphericalDelta hub_controller))" by (simp add: hub_delta new_Spherical_def)
  have e: "enabled hub_controller" "\<not> isTransitioning hub_controller" by simp_all
  from polar_angle_clamped[OF m e p d] m p d e show ?thesis by blast
qed

section \<open>Navigation\<close>

lemma length_nodePositions [simp]: "length nodePositions = 5"
  by (simp add: nodePositions_def)

lemma progress_at_pos:
  "0 < dur \<Longrightarrow> progress_at elapsed dur = Num (min (elapsed / dur) 1)"
  by (simp add: progress_at_def)

lemma ease_in_out_Num:
  "ease_in_out (Num p) = Num (if p < 1 / 2 then 2 * p * p else 1 - (- 2 * p + 2)\<^sup>2 / 2)"
  by (simp add: ease_in_out_def Let_def power2_eq_square)

lemma vec_eq [simp]: "vec a b c = vec a' b' c' \<longleftrightarrow> a = a' \<and> b = b' \<and> c = c'"
  by (auto simp: vec_def)

lemma nodes_whole:
  assumes "i < length nodePositions"
  shows "whole_vector (node_position (nodePositions ! i))"
    and "whole_vector (node_target (nodePositions ! i))"
proof -
  from assms have "i = 0 \<or> i = 1 \<or> i = 2 \<or> i = 3 \<or> i = 4" by (simp only: length_nodePositions) arith
  then show "whole_vector (node_position (nodePositions ! i))"
    and "whole_vector (node_target (nodePositions ! i))"
    by (auto simp: nodePositions_def)
qed

lemma lerp_steps:
  "fl (b - a) = Num d \<Longrightarrow> fl (d * t) = Num m \<Longrightarrow> lerp (Num a) (Num b) (Num t) = fl (a + m)"
  by (simp add: lerp_def js_sub_def)

text \<open>
  The end of the interpolation between two coordinates in the scene: three roundings
  away from the destination at most.
\<close>

lemma lerp_arrival:
  assumes "\<bar>a\<bar> \<le> 2 ^ 51" and "\<bar>b\<bar> \<le> 2 ^ 51"
  shows "\<exists>r. lerp (Num a) (Num b) (Num 1) = Num r
           \<and> \<bar>r - b\<bar> \<le> (\<bar>a\<bar> + \<bar>b\<bar>) / 2 ^ 51 + 4 * 2 powr (- 1075)"
proof -
  define h :: real where "h = 2 powr (- 1075)"
  define M where "M = \<bar>a\<bar> + \<bar>b\<bar>"
  define A where "A = M / 2 ^ 53 + h"
  define B where "B = (M + A) / 2 ^ 53 + h"
  define C where "C = (M + (A + B)) / 2 ^ 53 + h"
  have h0: "0 \<le> h" by (simp add: h_def)
  have h1: "h \<le> 1"
  proof -
    have "2 powr (- 1075) \<le> (2::real) powr 0" by (intro powr_mono) simp_all
    then show ?thesis by (simp add: h_def)
  qed
  have M0: "0 \<le> M" by (simp add: M_def)
  have M1: "M \<le> 4503599627370496" using assms by (simp add: M_def)
  have A2: "9007199254740992 * A = M + 9007199254740992 * h" by (simp add: A_def field_simps)
  have B2: "9007199254740992 * B = M + A + 9007199254740992 * h" by (simp add: B_def field_simps)
  have C2: "9007199254740992 * C = M + (A + B) + 9007199254740992 * h"
    by (simp add: C_def field_simps)
  have A1: "0 \<le> A" "A \<le> 2" using A2 M0 M1 h0 h1 by linarith+
  have B1: "0 \<le> B" "B \<le> 2" using B2 A1 M0 M1 h0 h1 by linarith+
  have x1: "\<bar>b - a\<bar> \<le> M" unfolding M_def by linarith
  have "\<bar>b - a\<bar> < 2 ^ 53" using x1 M1 by simp
  from fl_err[OF this] obtain d
    where d: "fl (b - a) = Num d" and "\<bar>d - (b - a)\<bar> \<le> \<bar>b - a\<bar> / 2 ^ 53 + h"
    unfolding h_def by blast
  moreover have "\<bar>b - a\<bar> / 2 ^ 53 \<le> M / 2 ^ 53" by (rule divide_right_mono[OF x1]) simp
  ultimately have e1: "\<bar>d - (b - a)\<bar> \<le> A" unfolding A_def by linarith
  have dd: "\<bar>d\<bar> \<le> M + A" using x1 e1 by linarith
  then have "\<bar>d * 1\<bar> < 2 ^ 53" using M1 A1 by simp
  from fl_err[OF this] obtain m
    where m: "fl (d * 1) = Num m" and "\<bar>m - d * 1\<bar> \<le> \<bar>d * 1\<bar> / 2 ^ 53 + h"
    unfolding h_def by blast
  then have "\<bar>m - d\<bar> \<le> \<bar>d\<bar> / 2 ^ 53 + h" by simp
  moreover have "\<bar>d\<bar> / 2 ^ 53 \<le> (M + A) / 2 ^ 53" by (rule divide_right_mono[OF dd]) simp
  ultimately have e2: "\<bar>m - d\<bar> \<le> B" unfolding B_def by linarith
  have mm: "\<bar>m - (b - a)\<bar> \<le> A + B" using e1 e2 by linarith
  have bM: "\<bar>b\<bar> \<le> M" by (simp add: M_def)
  have am: "\<bar>a + m\<bar> \<le> M + (A + B)" using mm bM by linarith
  then have "\<bar>a + m\<bar> < 2 ^ 53" using M1 A1 B1 by simp
  from fl_err[OF this] obtain r
    where r: "fl (a + m) = Num r" and "\<bar>r - (a + m)\<bar> \<le> \<bar>a + m\<bar> / 2 ^ 53 + h"
    unfolding h_def by blast
  moreover have "\<bar>a + m\<bar> / 2 ^ 53 \<le> (M + (A + B)) / 2 ^ 53"
    by (rule divide_right_mono[OF am]) simp
  ultimately have e3: "\<bar>r - (a + m)\<bar> \<le> C" unfolding C_def by linarith
  have t: "\<bar>r - b\<bar> \<le> C + (A + B)" using e3 mm by linarith
  have k1: "A \<le> M + 9007199254740992 * h" using A2 A1(1) by linarith
  have k2: "9007199254740992 * A + 9007199254740992 * A + 9007199254740992 * B
      = 3 * M + A + 27021597764222976 * h" using A2 B2 by linarith
  have k3: "9007199254740992 * A + 9007199254740992 * A + 9007199254740992 * B
      \<le> 4 * M + 36028797018963968 * h" using k1 k2 M0 h0 by linarith
  have k4: "A + A + B \<le> M + 9007199254740992 * h"
  proof -
    have "4 * M + 36028797018963968 * h
        \<le> 9007199254740992 * M + 81129638414606681695789005144064 * h"
      using M0 h0 by linarith
    with k3 have "9007199254740992 * (A + A + B)
        \<le> 9007199254740992 * (M + 9007199254740992 * h)" by (simp add: algebra_simps)
    then show ?thesis by simp
  qed
  have "9007199254740992 * C + 9007199254740992 * A + 9007199254740992 * B
      = 3 * M + (A + A + B) + 27021597764222976 * h" using A2 B2 C2 by linarith
  with k4 have "9007199254740992 * C + 9007199254740992 * A + 9007199254740992 * B
      \<le> 4 * M + 36028797018963968 * h" by linarith
  then have "9007199254740992 * (C + (A + B)) \<le> 9007199254740992 * (M / 2 ^ 51 + 4 * h)"
    by (simp add: algebra_simps)
  then have "C + (A + B) \<le> M / 2 ^ 51 + 4 * h" by simp
  with t have "\<bar>r - b\<bar> \<le> M / 2 ^ 51 + 4 * h" by linarith
  moreover have "lerp (Num a) (Num b) (Num 1) = Num r"
    using lerp_steps[OF d m] r by simp
  ultimately show ?thesis unfolding h_def M_def by blast
qed

lemma lerp_arrives:
  assumes "in_scene a" and "in_scene b"
  shows "arrives a b (lerp a b (Num 1))"
proof -
  from assms obtain x y where ab: "a = Num x" "b = Num y" by (cases a; cases b) simp_all
  from assms have "\<bar>x\<bar> \<le> 2 ^ 51" "\<bar>y\<bar> \<le> 2 ^ 51" by (simp_all add: ab)
  from lerp_arrival[OF this] obtain r
    where "lerp (Num x) (Num y) (Num 1) = Num r"
      and "\<bar>r - y\<bar> \<le> (\<bar>x\<bar> + \<bar>y\<bar>) / 2 ^ 51 + 4 * 2 powr (- 1075)" by blast
  then show ?thesis by (simp add: ab)
qed

lemma lerpVectors_arrives:
  assumes "in_scene_vector v1" and "in_scene_vector v2"
  shows "arrives_vector v1 v2 (lerpVectors v1 v2 (Num 1))"
  using assms by (simp add: in_scene_vector_def arrives_vector_def lerpVectors_def lerp_arrives)

lemma camera_position_updateSpherical [simp]:
  "camera_position (updateSphericalFromCamera s) = camera_position s"
  "target (updateSphericalFromCamera s) = target s"
  "isTransitioning (updateSphericalFromCamera s) = isTransitioning s"
  "currentNodeIndex (updateSphericalFromCamera s) = currentNodeIndex s"
  "enabled (updateSphericalFromCamera s) = enabled s"
  "gsap (updateSphericalFromCamera s) = gsap s"
  "options (updateSphericalFromCamera s) = options s"
  "transition (updateSphericalFromCamera s) = transition s"
  "onNavigateCallbacks (updateSphericalFromCamera s) = onNavigateCallbacks s"
  by (simp_all add: updateSphericalFromCamera_def)

lemma animate_position:
  "camera_position (fst (animate s p0 g0 t0 dur nd now))
     = lerpVectors p0 (node_position nd) (ease_in_out (progress_at (now - t0) dur))
   \<and> target (fst (animate s p0 g0 t0 dur nd now))
     = lerpVectors g0 (node_target nd) (ease_in_out (progress_at (now - t0) dur))"
  by (simp add: animate_def Let_def)

lemma animate_running:
  "js_lt (progress_at (now - t0) dur) (Num 1) \<Longrightarrow>
   isTransitioning (fst (animate s p0 g0 t0 dur nd now)) = isTransitioning s
   \<and> transition (fst (animate s p0 g0 t0 dur nd now)) = transition s"
  by (simp add: animate_def Let_def)

lemma animate_done:
  "\<not> js_lt (progress_at (now - t0) dur) (Num 1) \<Longrightarrow>
   \<not> isTransitioning (fst (animate s p0 g0 t0 dur nd now))
   \<and> transition (fst (animate s p0 g0 t0 dur nd now)) = None"
  by (simp add: animate_def Let_def)

lemma animate_effects_motion:
  "snd (animate s p0 g0 t0 dur nd now) \<noteq> [] \<and> list_all is_motion (snd (animate s p0 g0 t0 dur nd now))"
  by (simp add: animate_def Let_def)

lemma navigateToNode_accepted:
  assumes "0 \<le> i" "i < int (length nodePositions)" "\<not> isTransitioning s"
  shows "navigateToNode s i t0 t1 =
    (let nd = nodePositions ! nat i;
         s1 = s\<lparr>currentNodeIndex := i, isTransitioning := True\<rparr>;
         dur = (if reducedMotion (options s) then 0.1 else transitionDuration (options s))
     in if gsap s
        then (s1\<lparr>transition := Some (GsapTweens nd dur)\<rparr>,
              notifications s i @ [GsapToCameraPosition (node_position nd) dur,
                                   GsapToTarget (node_target nd) dur])
        else (fst (fallbackTransition s1 nd dur t0 t1),
              notifications s i @ snd (fallbackTransition s1 nd dur t0 t1)))"
  using assms by (simp add: navigateToNode_def notifications_def Let_def split: prod.splits)

lemma navigateToNode_busy: "isTransitioning s \<Longrightarrow> navigateToNode s i t0 t1 = (s, [])"
  by (simp add: navigateToNode_def)

lemma navigateToNode_trace:
  assumes "0 \<le> i" "i < int (length nodePositions)" "\<not> isTransitioning s"
  shows "\<exists>motion. snd (navigateToNode s i t0 t1) = notifications s i @ motion
           \<and> motion \<noteq> [] \<and> list_all is_motion motion"
  unfolding navigateToNode_accepted[OF assms]
  by (simp add: Let_def fallbackTransition_def animate_effects_motion)

lemma onNavigate_run: "onNavigateCallbacks (foldl onNavigate s cbs) = onNavigateCallbacks s @ cbs"
  by (induction cbs arbitrary: s) (simp_all add: onNavigate_def)

lemma onNavigate_run_isTransitioning [simp]:
  "isTransitioning (foldl onNavigate s cbs) = isTransitioning s"
  by (induction cbs arbitrary: s) (simp_all add: onNavigate_def)

text \<open>
  Claim C3: \<^verbatim>\<open>navigateToNode(i)\<close> does nothing when \<open>i\<close> is negative, when \<open>i\<close> is not below
  the number of nodes, or when a transition is active: the controller is unchanged
  (current node index, \<^verbatim>\<open>isTransitioning\<close>, camera position, target and the transition in
  flight with its destination) and no listener is called.
\<close>

theorem navigateToNode_rejected:
  "nodeIndex < 0 \<or> nodeIndex \<ge> int (length nodePositions) \<or> isTransitioning s
   \<Longrightarrow> navigateToNode s nodeIndex t0 t1 = (s, [])"
  by (auto simp: navigateToNode_def)

theorem navigateToNode_rejected_witness:
  "navigateToNode hub_controller (- 1) 0 0 = (hub_controller, [])
   \<and> navigateToNode hub_controller 5 0 0 = (hub_controller, [])
   \<and> isTransitioning (fst (navigateToNode hub_controller 2 0 0))
   \<and> transition (fst (navigateToNode hub_controller 2 0 0))
       = Some (FallbackTransition (vec 0 0 50) (vec 0 0 0) 0 2000 (nodePositions ! 2))
   \<and> navigateToNode (fst (navigateToNode hub_controller 2 0 0)) 4 500 500
       = (fst (navigateToNode hub_controller 2 0 0), [])"
proof -
  have a: "isTransitioning (fst (navigateToNode hub_controller 2 0 0))
     \<and> transition (fst (navigateToNode hub_controller 2 0 0))
       = Some (FallbackTransition (vec 0 0 50) (vec 0 0 0) 0 2000 (nodePositions ! 2))"
    by (simp add: navigateToNode_accepted Let_def fallbackTransition_def default_options_def
        animate_running progress_at_pos)
  then have "navigateToNode (fst (navigateToNode hub_controller 2 0 0)) 4 500 500
       = (fst (navigateToNode hub_controller 2 0 0), [])"
    using navigateToNode_rejected[of 4 "fst (navigateToNode hub_controller 2 0 0)" 500 500]
    by blast
  moreover have "navigateToNode hub_controller (- 1) 0 0 = (hub_controller, [])"
    using navigateToNode_rejected[of "- 1" hub_controller 0 0] by simp
  moreover have "navigateToNode hub_controller 5 0 0 = (hub_controller, [])"
    using navigateToNode_rejected[of 5 hub_controller 0 0] by simp
  ultimately show ?thesis using a by blast
qed

text \<open>
  Claim C4: for every accepted \<^verbatim>\<open>navigateToNode(i)\<close> the registered navigation listeners
  (those the controller held, then those registered since with \<^verbatim>\<open>onNavigate\<close>, in that
  order) are called with \<open>i\<close> and the node's name before anything of the transition:
  what follows the calls is the motion only (the tween starts of the GSAP path, or the camera and target writes of the first \<^verbatim>\<open>animate\<close> of
  the built-in path), so every write to the camera position or the target comes after
  every listener call.
\<close>

theorem listeners_notified_before_motion:
  assumes "0 \<le> i" and "i < int (length nodePositions)" and "\<not> isTransitioning s0"
  shows "\<exists>motion. snd (navigateToNode (foldl onNavigate s0 cbs) i t0 t1)
            = map (\<lambda>cb. NavigateCallback cb i (node_name (nodePositions ! nat i)))
                (onNavigateCallbacks s0 @ cbs) @ motion
          \<and> motion \<noteq> [] \<and> list_all is_motion motion"
proof -
  have "\<not> isTransitioning (foldl onNavigate s0 cbs)" using assms(3) by simp
  from navigateToNode_trace[OF assms(1,2) this, of t0 t1] show ?thesis
    by (simp add: notifications_def onNavigate_run)
qed

theorem listeners_notified_before_motion_witness:
  "(0::int) \<le> 2 \<and> 2 < int (length nodePositions) \<and> \<not> isTransitioning hub_controller
   \<and> (\<exists>motion. snd (navigateToNode (foldl onNavigate hub_controller [7, 3]) 2 0 0)
            = [NavigateCallback 7 2 ''Work'', NavigateCallback 3 2 ''Work''] @ motion
          \<and> motion \<noteq> [] \<and> list_all is_motion motion)"
proof -
  have h: "(0::int) \<le> 2" "2 < int (length nodePositions)" "\<not> isTransitioning hub_controller"
    by simp_all
  have n: "node_name (nodePositions ! 2) = ''Work''"
    by (simp add: nodePositions_def)
  from listeners_notified_before_motion[OF h, of "[7, 3]" 0 0] h show ?thesis
    by (simp add: n)
qed

lemma navigateToNode_fallback:
  assumes "0 \<le> i" "i < int (length nodePositions)" "\<not> isTransitioning s" "\<not> gsap s"
    "0 < duration_ms s" "t1 - t0 < duration_ms s"
  shows "transition (fst (navigateToNode s i t0 t1))
       = Some (FallbackTransition (camera_position s) (target s) t0 (duration_ms s)
           (nodePositions ! nat i))"
    and "isTransitioning (fst (navigateToNode s i t0 t1))"
  using assms(4-6) unfolding navigateToNode_accepted[OF assms(1-3)]
  by (simp_all add: Let_def fallbackTransition_def animate_running progress_at_pos duration_ms_def)

lemma onAnimationFrame_fallback:
  assumes "transition c = Some (FallbackTransition p0 g0 t0 dur nd)"
  shows "camera_position (fst (onAnimationFrame c now))
       = lerpVectors p0 (node_position nd) (ease_in_out (progress_at (now - t0) dur))"
    and "target (fst (onAnimationFrame c now))
       = lerpVectors g0 (node_target nd) (ease_in_out (progress_at (now - t0) dur))"
    and "js_lt (progress_at (now - t0) dur) (Num 1) \<Longrightarrow>
         isTransitioning (fst (onAnimationFrame c now)) = isTransitioning c
         \<and> transition (fst (onAnimationFrame c now)) = transition c"
    and "\<not> js_lt (progress_at (now - t0) dur) (Num 1) \<Longrightarrow>
         \<not> isTransitioning (fst (onAnimationFrame c now))
         \<and> transition (fst (onAnimationFrame c now)) = None"
  using assms by (simp_all add: onAnimationFrame_def animate_position animate_running animate_done)

lemma run_frames_fallback:
  assumes "transition c = Some (FallbackTransition p0 g0 t0 dur nd)" and "isTransitioning c"
    and "0 < dur" and "list_all (\<lambda>t. t - t0 < dur) frames"
  shows "transition (run_frames c frames) = Some (FallbackTransition p0 g0 t0 dur nd)
     \<and> isTransitioning (run_frames c frames)"
  using assms
proof (induction frames arbitrary: c)
  case Nil
  then show ?case by (simp add: run_frames_def)
next
  case (Cons t frames)
  have "js_lt (progress_at (t - t0) dur) (Num 1)"
    using Cons.prems(3,4) by (simp add: progress_at_pos)
  from onAnimationFrame_fallback(3)[OF Cons.prems(1) this] Cons.prems(1,2)
  have "transition (fst (onAnimationFrame c t)) = Some (FallbackTransition p0 g0 t0 dur nd)"
    and "isTransitioning (fst (onAnimationFrame c t))" by simp_all
  from Cons.IH[OF this Cons.prems(3)] Cons.prems(4) show ?case
    by (simp add: run_frames_def)
qed

lemma frame_after_fallback:
  assumes "\<not> gsap s" "\<not> isTransitioning s" "0 \<le> i" "i < int (length nodePositions)"
    "0 < duration_ms s" "t1 - t0 < duration_ms s"
    "list_all (\<lambda>t. t - t0 < duration_ms s) frames"
  shows "camera_position (frame_after s i t0 t1 frames now)
       = lerpVectors (camera_position s) (node_position (nodePositions ! nat i))
           (ease_in_out (progress_at (now - t0) (duration_ms s)))"
    and "target (frame_after s i t0 t1 frames now)
       = lerpVectors (target s) (node_target (nodePositions ! nat i))
           (ease_in_out (progress_at (now - t0) (duration_ms s)))"
    and "now - t0 < duration_ms s \<Longrightarrow> isTransitioning (frame_after s i t0 t1 frames now)"
    and "duration_ms s \<le> now - t0 \<Longrightarrow>
         \<not> isTransitioning (frame_after s i t0 t1 frames now)
         \<and> transition (frame_after s i t0 t1 frames now) = None"
proof -
  let ?c = "run_frames (fst (navigateToNode s i t0 t1)) frames"
  note n = navigateToNode_fallback[OF assms(3,4,2,1,5,6)]
  from run_frames_fallback[OF n assms(5,7)]
  have c: "transition ?c = Some (FallbackTransition (camera_position s) (target s) t0
             (duration_ms s) (nodePositions ! nat i))"
    and b: "isTransitioning ?c" by simp_all
  show "camera_position (frame_after s i t0 t1 frames now)
       = lerpVectors (camera_position s) (node_position (nodePositions ! nat i))
           (ease_in_out (progress_at (now - t0) (duration_ms s)))"
    unfolding frame_after_def by (rule onAnimationFrame_fallback(1)[OF c])
  show "target (frame_after s i t0 t1 frames now)
       = lerpVectors (target s) (node_target (nodePositions ! nat i))
           (ease_in_out (progress_at (now - t0) (duration_ms s)))"
    unfolding frame_after_def by (rule onAnimationFrame_fallback(2)[OF c])
  show "isTransitioning (frame_after s i t0 t1 frames now)" if "now - t0 < duration_ms s"
  proof -
    have "js_lt (progress_at (now - t0) (duration_ms s)) (Num 1)"
      using that assms(5) by (simp add: progress_at_pos)
    from onAnimationFrame_fallback(3)[OF c this] b show ?thesis
      by (simp add: frame_after_def)
  qed
  show "\<not> isTransitioning (frame_after s i t0 t1 frames now)
         \<and> transition (frame_after s i t0 t1 frames now) = None" if "duration_ms s \<le> now - t0"
  proof -
    have "\<not> js_lt (progress_at (now - t0) (duration_ms s)) (Num 1)"
      using that assms(5) by (simp add: progress_at_pos)
    from onAnimationFrame_fallback(4)[OF c this] show ?thesis
      by (simp add: frame_after_def)
  qed
qed

lemma eased_half:
  assumes "0 < dur" and "elapsed = dur / 2"
  shows "ease_in_out (progress_at elapsed dur) = Num (1 / 2)"
proof -
  have "elapsed / dur = 1 / 2" using assms by simp
  then have "progress_at elapsed dur = Num (1 / 2)"
    using assms(1) by (simp add: progress_at_pos)
  then show ?thesis by (simp add: ease_in_out_Num power2_eq_square)
qed

lemma eased_one:
  "0 < dur \<Longrightarrow> dur \<le> elapsed \<Longrightarrow> ease_in_out (progress_at elapsed dur) = Num 1"
  by (simp add: progress_at_pos ease_in_out_Num min_def)

lemma away_fields [simp]:
  "options away_controller = default_options"
  "\<not> isTransitioning away_controller"
  "\<not> gsap away_controller"
  "camera_position away_controller = vec (- 7036733680278045 / 2 ^ 47) 0 50"
  "target away_controller = vec 0 0 0"
  by (simp_all add: away_controller_def init_def updateSphericalFromCamera_def
      new_CameraController_def)

lemma node_1: "nodePositions ! 1 = NodePosition (vec 30 5 25) (vec 25 0 10) ''About''"
  by (simp add: nodePositions_def)

text \<open>
  The first coordinate of the way from \<^verbatim>\<open>-49.999\<close> to 30: the difference
  \<open>11258858330937885 / 2\<^sup>4\<^sup>7\<close> lies halfway between two doubles and is rounded to the even
  one, \<open>5629429165468942 / 2\<^sup>4\<^sup>6\<close>, which is \<open>2\<^bsup>-47\<^esup>\<close> short.
\<close>

lemma away_difference:
  "fl (30 - - 7036733680278045 / 2 ^ 47) = Num (5629429165468942 / 2 ^ 46)"
proof -
  have e: "(30::real) - - 7036733680278045 / 2 ^ 47 = 11258858330937885 / 2 ^ 47" by simp
  show ?thesis unfolding e
    by (subst fl_binade[where k = 46]) (simp_all add: rhe_def Let_def)
qed

lemma away_lerp_one:
  "lerp (Num (- 7036733680278045 / 2 ^ 47)) (Num 30) (Num 1) = Num (4222124650659839 / 2 ^ 47)"
proof -
  have m: "fl (5629429165468942 / 2 ^ 46 * 1) = Num (5629429165468942 / 2 ^ 46)"
    using fl_dyadic[of 5629429165468942 46] by simp
  have e: "(- 7036733680278045 / 2 ^ 47 + 5629429165468942 / 2 ^ 46 :: real)
      = of_int 4222124650659839 / 2 ^ 47" by simp
  have "fl (- 7036733680278045 / 2 ^ 47 + 5629429165468942 / 2 ^ 46)
      = Num (4222124650659839 / 2 ^ 47)"
    unfolding e using fl_dyadic[of 4222124650659839 47] by simp
  with lerp_steps[OF away_difference m] show ?thesis by simp
qed

lemma away_lerp_half:
  "lerp (Num (- 7036733680278045 / 2 ^ 47)) (Num 30) (Num (1 / 2))
     = Num (- 1407304514809103 / 2 ^ 47)"
proof -
  have e1: "(5629429165468942 / 2 ^ 46 * (1 / 2) :: real) = of_int 5629429165468942 / 2 ^ 47"
    by simp
  have m: "fl (5629429165468942 / 2 ^ 46 * (1 / 2)) = Num (5629429165468942 / 2 ^ 47)"
    unfolding e1 using fl_dyadic[of 5629429165468942 47] by simp
  have e: "(- 7036733680278045 / 2 ^ 47 + 5629429165468942 / 2 ^ 47 :: real)
      = of_int (- 1407304514809103) / 2 ^ 47" by simp
  have "fl (- 7036733680278045 / 2 ^ 47 + 5629429165468942 / 2 ^ 47)
      = Num (- 1407304514809103 / 2 ^ 47)"
    unfolding e using fl_dyadic[of "- 1407304514809103" 47] by simp
  with lerp_steps[OF away_difference m] show ?thesis by simp
qed

text \<open>
  Claim C5, as stated, has the camera exactly at the destination at the step where the
  progress is one, and exactly at the midpoint at half the duration, whatever the start.
  The transition never assigns the destination: its last step computes
  \<^verbatim>\<open>start + (destination - start) * 1\<close> in doubles. For a camera at \<^verbatim>\<open>x = -49.999\<close> that
  navigates to the About node at \<^verbatim>\<open>x = 30\<close>, the frame at 2000 ms ends the transition
  with the camera at \<open>x = 30 - 2\<^bsup>-47\<^esup>\<close>, which JavaScript prints as
  \<^verbatim>\<open>29.999999999999993\<close>, and the frame at 1000 ms puts it \<open>2\<^bsup>-48\<^esup>\<close> off the midpoint.
\<close>

theorem arrival_misses_destination:
  "camera_position away_controller = vec (- 7036733680278045 / 2 ^ 47) 0 50
   \<and> fl (- 7036733680278045 / 2 ^ 47) = Num (- 7036733680278045 / 2 ^ 47)
   \<and> node_position (nodePositions ! 1) = vec 30 5 25
   \<and> \<not> isTransitioning (frame_after away_controller 1 0 0 [] 2000)
   \<and> camera_position (frame_after away_controller 1 0 0 [] 2000)
       = vec (4222124650659839 / 2 ^ 47) 5 25
   \<and> camera_position (frame_after away_controller 1 0 0 [] 2000)
       \<noteq> node_position (nodePositions ! 1)
   \<and> camera_position (frame_after away_controller 1 0 0 [] 1000)
       = vec (- 1407304514809103 / 2 ^ 47) (5 / 2) (75 / 2)
   \<and> midpoint (camera_position away_controller) (node_position (nodePositions ! 1))
       = vec (- 2814609029618205 / 2 ^ 48) (5 / 2) (75 / 2)
   \<and> camera_position (frame_after away_controller 1 0 0 [] 1000)
       \<noteq> midpoint (camera_position away_controller) (node_position (nodePositions ! 1))"
proof -
  have d: "duration_ms away_controller = 2000"
    by (simp add: duration_ms_def default_options_def)
  have h: "\<not> gsap away_controller" "\<not> isTransitioning away_controller" "(0::int) \<le> 1"
    "1 < int (length nodePositions)" "0 < duration_ms away_controller"
    "(0::real) - 0 < duration_ms away_controller"
    "list_all (\<lambda>t. t - 0 < duration_ms away_controller) []"
    by (simp_all add: d)
  note f = frame_after_fallback[OF h]
  have s: "fl (- 7036733680278045 / 2 ^ 47) = Num (- 7036733680278045 / 2 ^ 47)"
    using fl_dyadic[of "- 7036733680278045" 47] by simp
  have w: "whole (Num 0)" "whole (Num 5)" "whole (Num 50)" "whole (Num 25)" by simp_all
  have e1: "ease_in_out (progress_at (2000 - 0) (duration_ms away_controller)) = Num 1"
    by (rule eased_one) (simp_all add: d)
  have e2: "ease_in_out (progress_at (1000 - 0) (duration_ms away_controller)) = Num (1 / 2)"
    by (rule eased_half) (simp_all add: d)
  have nd: "node_position (nodePositions ! nat 1) = vec 30 5 25"
    by (simp add: nodePositions_def)
  have l1: "lerpVectors (vec (- 7036733680278045 / 2 ^ 47) 0 50) (vec 30 5 25) (Num 1)
       = vec (4222124650659839 / 2 ^ 47) 5 25"
    unfolding lerpVectors_def vec_def
    by (simp only: Vector3.sel away_lerp_one lerp_whole(3)[OF w(1,2)] lerp_whole(3)[OF w(3,4)])
  have h2: "js_div (js_add (Num 0) (Num 5)) (Num 2) = Num (5 / 2)"
    "js_div (js_add (Num 50) (Num 25)) (Num 2) = Num (75 / 2)" by simp_all
  have l2: "lerpVectors (vec (- 7036733680278045 / 2 ^ 47) 0 50) (vec 30 5 25) (Num (1 / 2))
       = vec (- 1407304514809103 / 2 ^ 47) (5 / 2) (75 / 2)"
    unfolding lerpVectors_def vec_def
    by (simp only: Vector3.sel away_lerp_half lerp_whole(2)[OF w(1,2)] lerp_whole(2)[OF w(3,4)] h2)
  have p1: "camera_position (frame_after away_controller 1 0 0 [] 2000)
       = vec (4222124650659839 / 2 ^ 47) 5 25"
    unfolding f(1) e1 nd away_fields(4) by (rule l1)
  have p2: "camera_position (frame_after away_controller 1 0 0 [] 1000)
       = vec (- 1407304514809103 / 2 ^ 47) (5 / 2) (75 / 2)"
    unfolding f(1) e2 nd away_fields(4) by (rule l2)
  have a: "camera_position away_controller = vec (- 7036733680278045 / 2 ^ 47) 0 50"
    "node_position (nodePositions ! 1) = vec 30 5 25"
    using node_1 by simp_all
  have m: "midpoint (camera_position away_controller) (node_position (nodePositions ! 1))
       = vec (- 2814609029618205 / 2 ^ 48) (5 / 2) (75 / 2)"
    unfolding a by simp
  have n: "\<not> isTransitioning (frame_after away_controller 1 0 0 [] 2000)"
    using f(4)[of 2000] by (simp add: d)
  have q1: "camera_position (frame_after away_controller 1 0 0 [] 2000)
       \<noteq> node_position (nodePositions ! 1)"
    unfolding p1 a by simp
  have q2: "camera_position (frame_after away_controller 1 0 0 [] 1000)
       \<noteq> midpoint (camera_position away_controller) (node_position (nodePositions ! 1))"
    unfolding p2 m by simp
  from a s n p1 q1 p2 m q2 show ?thesis by blast
qed

text \<open>
  Claim C5, amended: the built-in transition takes the linear progress
  \<open>p = min (elapsed / duration) 1\<close>, eases it to \<open>2 p\<^sup>2\<close> below one half and to
  \<open>1 - (- 2 p + 2)\<^sup>2 / 2\<close> from there on, and on every frame sets the camera position and
  the target to the interpolation \<^verbatim>\<open>lerpVectors\<close>, at the eased progress, between their
  values at the start and the destination's, each coordinate being
  \<^verbatim>\<open>start + (destination - start) * eased\<close> in doubles. At half the duration the eased
  progress is 1/2 and the transition stays active; on a frame where the time is up the
  progress and the eased progress are 1 and the transition ends. The destination itself
  is never assigned. When the coordinates of the start are whole numbers, as those of
  the destinations are, the camera is exactly at the midpoint and at the end exactly at
  the destination. For any start in the scene it ends at the destination up to the
  rounding of the interpolation.
\<close>

theorem fallback_transition_interpolates:
  assumes "\<not> gsap s" and "\<not> isTransitioning s" and "0 \<le> i" and "i < int (length nodePositions)"
    and "0 < duration_ms s" and "t1 - t0 < duration_ms s"
    and "list_all (\<lambda>t. t - t0 < duration_ms s) frames"
  shows "progress_at (now - t0) (duration_ms s) = Num (min ((now - t0) / duration_ms s) 1)
    \<and> ease_in_out (Num p) = Num (if p < 1 / 2 then 2 * p * p else 1 - (- 2 * p + 2)\<^sup>2 / 2)
    \<and> camera_position (frame_after s i t0 t1 frames now)
        = lerpVectors (camera_position s) (node_position (nodePositions ! nat i))
            (ease_in_out (progress_at (now - t0) (duration_ms s)))
    \<and> target (frame_after s i t0 t1 frames now)
        = lerpVectors (target s) (node_target (nodePositions ! nat i))
            (ease_in_out (progress_at (now - t0) (duration_ms s)))
    \<and> (now - t0 = duration_ms s / 2 \<longrightarrow>
         ease_in_out (progress_at (now - t0) (duration_ms s)) = Num (1 / 2)
         \<and> isTransitioning (frame_after s i t0 t1 frames now)
         \<and> (whole_vector (camera_position s) \<longrightarrow>
              camera_position (frame_after s i t0 t1 frames now)
                = midpoint (camera_position s) (node_position (nodePositions ! nat i))))
    \<and> (duration_ms s \<le> now - t0 \<longrightarrow>
         progress_at (now - t0) (duration_ms s) = Num 1
         \<and> ease_in_out (progress_at (now - t0) (duration_ms s)) = Num 1
         \<and> \<not> isTransitioning (frame_after s i t0 t1 frames now)
         \<and> transition (frame_after s i t0 t1 frames now) = None
         \<and> (whole_vector (camera_position s) \<longrightarrow>
              camera_position (frame_after s i t0 t1 frames now)
                = node_position (nodePositions ! nat i))
         \<and> (in_scene_vector (camera_position s) \<longrightarrow>
              arrives_vector (camera_position s) (node_position (nodePositions ! nat i))
                (camera_position (frame_after s i t0 t1 frames now))))"
proof -
  let ?d = "duration_ms s"
  let ?nd = "nodePositions ! nat i"
  let ?c = "frame_after s i t0 t1 frames now"
  note f = frame_after_fallback[OF assms, of now]
  have wn: "whole_vector (node_position ?nd)"
    by (rule nodes_whole(1)) (use assms(3,4) in simp)
  have 1: "progress_at (now - t0) ?d = Num (min ((now - t0) / ?d) 1)"
    by (rule progress_at_pos[OF assms(5)])
  have 2: "ease_in_out (Num p) = Num (if p < 1 / 2 then 2 * p * p else 1 - (- 2 * p + 2)\<^sup>2 / 2)"
    by (rule ease_in_out_Num)
  have 5: "ease_in_out (progress_at (now - t0) ?d) = Num (1 / 2)
         \<and> isTransitioning ?c
         \<and> (whole_vector (camera_position s) \<longrightarrow>
              camera_position ?c = midpoint (camera_position s) (node_position ?nd))"
    if h: "now - t0 = ?d / 2"
  proof -
    have e: "ease_in_out (progress_at (now - t0) ?d) = Num (1 / 2)"
      by (rule eased_half[OF assms(5) h])
    have "now - t0 < ?d" using h assms(5) by simp
    from f(3)[OF this] have a: "isTransitioning ?c" .
    have "camera_position ?c = midpoint (camera_position s) (node_position ?nd)"
      if "whole_vector (camera_position s)"
      unfolding f(1) e by (rule lerpVectors_whole(2)[OF that wn])
    with e a show ?thesis by blast
  qed
  have 6: "progress_at (now - t0) ?d = Num 1
         \<and> ease_in_out (progress_at (now - t0) ?d) = Num 1
         \<and> \<not> isTransitioning ?c \<and> transition ?c = None
         \<and> (whole_vector (camera_position s) \<longrightarrow> camera_position ?c = node_position ?nd)
         \<and> (in_scene_vector (camera_position s) \<longrightarrow>
              arrives_vector (camera_position s) (node_position ?nd) (camera_position ?c))"
    if h: "?d \<le> now - t0"
  proof -
    have p: "progress_at (now - t0) ?d = Num 1"
      using h assms(5) by (simp add: progress_at_pos min_def)
    have e: "ease_in_out (progress_at (now - t0) ?d) = Num 1"
      by (rule eased_one[OF assms(5) h])
    have w: "camera_position ?c = node_position ?nd" if "whole_vector (camera_position s)"
      unfolding f(1) e by (rule lerpVectors_whole(3)[OF that wn])
    have "arrives_vector (camera_position s) (node_position ?nd) (camera_position ?c)"
      if "in_scene_vector (camera_position s)"
      unfolding f(1) e by (rule lerpVectors_arrives[OF that whole_vector_in_scene[OF wn]])
    with w p e f(4)[OF h] show ?thesis by blast
  qed
  from 1 2 f(1) f(2) 5 6 show ?thesis by blast
qed

theorem fallback_transition_interpolates_witness:
  "\<not> gsap hub_controller \<and> \<not> isTransitioning hub_controller
   \<and> (0::int) \<le> 2 \<and> 2 < int (length nodePositions)
   \<and> 0 < duration_ms hub_controller \<and> (0::real) - 0 < duration_ms hub_controller
   \<and> list_all (\<lambda>t. t - 0 < duration_ms hub_controller) [16, 500, 1000]
   \<and> whole_vector (camera_position hub_controller)
   \<and> progress_at (500 - 0) (duration_ms hub_controller) = Num (1 / 4)
   \<and> ease_in_out (Num (1 / 4)) = Num (1 / 8)
   \<and> camera_position (frame_after hub_controller 2 0 0 [16, 500, 1000] 1000) = vec (- 15) 5 35
   \<and> isTransitioning (frame_after hub_controller 2 0 0 [16, 500, 1000] 1000)
   \<and> camera_position (frame_after hub_controller 2 0 0 [16, 500, 1000] 2000) = vec (- 30) 10 20
   \<and> \<not> isTransitioning (frame_after hub_controller 2 0 0 [16, 500, 1000] 2000)
   \<and> transition (frame_after hub_controller 2 0 0 [16, 500, 1000] 2000) = None
   \<and> \<not> gsap away_controller \<and> \<not> isTransitioning away_controller
   \<and> (0::int) \<le> 1 \<and> 1 < int (length nodePositions)
   \<and> 0 < duration_ms away_controller \<and> (0::real) - 0 < duration_ms away_controller
   \<and> list_all (\<lambda>t. t - 0 < duration_ms away_controller) []
   \<and> duration_ms away_controller \<le> 2000 - 0
   \<and> in_scene_vector (camera_position away_controller)
   \<and> arrives_vector (camera_position away_controller) (node_position (nodePositions ! 1))
        (camera_position (frame_after away_controller 1 0 0 [] 2000))"
proof -
  have d: "duration_ms hub_controller = 2000"
    by (simp add: duration_ms_def default_options_def)
  have h: "\<not> gsap hub_controller" "\<not> isTransitioning hub_controller" "(0::int) \<le> 2"
    "2 < int (length nodePositions)" "0 < duration_ms hub_controller"
    "(0::real) - 0 < duration_ms hub_controller"
    "list_all (\<lambda>t. t - 0 < duration_ms hub_controller) [16, 500, 1000]"
    by (simp_all add: d)
  have w: "whole_vector (camera_position hub_controller)" by simp
  have n: "node_position (nodePositions ! nat 2) = vec (- 30) 10 20"
    by (simp add: nodePositions_def)
  have m: "midpoint (camera_position hub_controller) (vec (- 30) 10 20) = vec (- 15) 5 35"
    by simp
  note a = fallback_transition_interpolates[OF h, where now = 500 and p = "1 / 4"]
  note b = fallback_transition_interpolates[OF h, where now = 1000 and p = "1 / 4"]
  note c = fallback_transition_interpolates[OF h, where now = 2000 and p = "1 / 4"]
  from a have "progress_at (500 - 0) (duration_ms hub_controller)
      = Num (min ((500 - 0) / duration_ms hub_controller) 1)" by blast
  then have 1: "progress_at (500 - 0) (duration_ms hub_controller) = Num (1 / 4)"
    by (simp add: d)
  from a have "ease_in_out (Num (1 / 4))
      = Num (if (1 / 4 :: real) < 1 / 2 then 2 * (1 / 4) * (1 / 4) else 1 - (- 2 * (1 / 4) + 2)\<^sup>2 / 2)"
    by blast
  then have 2: "ease_in_out (Num (1 / 4)) = Num (1 / 8)" by simp
  have "(1000::real) - 0 = duration_ms hub_controller / 2" by (simp add: d)
  with b w have "camera_position (frame_after hub_controller 2 0 0 [16, 500, 1000] 1000)
        = midpoint (camera_position hub_controller) (node_position (nodePositions ! nat 2))
      \<and> isTransitioning (frame_after hub_controller 2 0 0 [16, 500, 1000] 1000)" by blast
  then have 3: "camera_position (frame_after hub_controller 2 0 0 [16, 500, 1000] 1000) = vec (- 15) 5 35
      \<and> isTransitioning (frame_after hub_controller 2 0 0 [16, 500, 1000] 1000)"
    unfolding n m .
  have "duration_ms hub_controller \<le> 2000 - 0" by (simp add: d)
  with c w have "camera_position (frame_after hub_controller 2 0 0 [16, 500, 1000] 2000)
        = node_position (nodePositions ! nat 2)
      \<and> \<not> isTransitioning (frame_after hub_controller 2 0 0 [16, 500, 1000] 2000)
      \<and> transition (frame_after hub_controller 2 0 0 [16, 500, 1000] 2000) = None" by blast
  then have 4: "camera_position (frame_after hub_controller 2 0 0 [16, 500, 1000] 2000) = vec (- 30) 10 20
      \<and> \<not> isTransitioning (frame_after hub_controller 2 0 0 [16, 500, 1000] 2000)
      \<and> transition (frame_after hub_controller 2 0 0 [16, 500, 1000] 2000) = None"
    unfolding n .
  have d': "duration_ms away_controller = 2000"
    by (simp add: duration_ms_def default_options_def)
  have h': "\<not> gsap away_controller" "\<not> isTransitioning away_controller" "(0::int) \<le> 1"
    "1 < int (length nodePositions)" "0 < duration_ms away_controller"
    "(0::real) - 0 < duration_ms away_controller"
    "list_all (\<lambda>t. t - 0 < duration_ms away_controller) []"
    by (simp_all add: d')
  have w': "duration_ms away_controller \<le> 2000 - 0"
    "in_scene_vector (camera_position away_controller)" by (simp_all add: d')
  note e = fallback_transition_interpolates[OF h', where now = 2000 and p = "1 / 4"]
  from e w' have "arrives_vector (camera_position away_controller)
        (node_position (nodePositions ! nat 1))
        (camera_position (frame_after away_controller 1 0 0 [] 2000))" by blast
  then have 5: "arrives_vector (camera_position away_controller) (node_position (nodePositions ! 1))
        (camera_position (frame_after away_controller 1 0 0 [] 2000))" by simp
  from h w 1 2 3 4 h' w' 5 show ?thesis by blast
qed

section \<open>Keyboard navigation and reduced motion\<close>

lemma js_rem_nonneg: "0 \<le> a \<Longrightarrow> 0 < b \<Longrightarrow> js_rem a b = a mod b"
  by (cases "a = 0") (simp_all add: js_rem_def)

lemma onKeyDown_Tab:
  assumes "enabled s" "0 \<le> currentNodeIndex s"
  shows "onKeyDown s \<lparr>key = ''Tab'', shiftKey = sh\<rparr> t0 t1 =
     (let i = (if sh then (currentNodeIndex s - 1 + int (length nodePositions)) mod int (length nodePositions)
               else (currentNodeIndex s + 1) mod int (length nodePositions))
      in (fst (navigateToNode s i t0 t1), snd (navigateToNode s i t0 t1) @ [PreventDefault]))"
proof -
  have r: "js_rem (currentNodeIndex s + 1) 5 = (currentNodeIndex s + 1) mod 5"
    "js_rem (currentNodeIndex s - 1 + 5) 5 = (currentNodeIndex s - 1 + 5) mod 5"
    using assms(2) by (simp_all add: js_rem_nonneg)
  have r': "js_rem (4 + currentNodeIndex s) 5 = (4 + currentNodeIndex s) mod 5"
    using assms(2) by (simp add: js_rem_nonneg)
  show ?thesis
    using assms(1) by (simp add: onKeyDown_def Let_def split_beta r r')
qed

lemma onKeyDown_Home:
  assumes "enabled s"
  shows "onKeyDown s \<lparr>key = ''Home'', shiftKey = sh\<rparr> t0 t1 =
     (fst (navigateToNode s 0 t0 t1), snd (navigateToNode s 0 t0 t1) @ [PreventDefault])"
  using assms by (simp add: onKeyDown_def Let_def split_beta)

lemma navigateToNode_started:
  assumes "0 \<le> i" "i < int (length nodePositions)" "\<not> isTransitioning s"
  shows "currentNodeIndex (fst (navigateToNode s i t0 t1)) = i
     \<and> enabled (fst (navigateToNode s i t0 t1)) = enabled s
     \<and> options (fst (navigateToNode s i t0 t1)) = options s
     \<and> gsap (fst (navigateToNode s i t0 t1)) = gsap s"
  unfolding navigateToNode_accepted[OF assms]
  by (simp add: Let_def fallbackTransition_def animate_def)

lemma navigateToNode_pending:
  assumes "0 \<le> i" "i < int (length nodePositions)" "\<not> isTransitioning s" "0 < duration_ms s"
  shows "gsap s \<Longrightarrow> \<exists>nd dur. transition (fst (navigateToNode s i t t)) = Some (GsapTweens nd dur)"
    and "\<not> gsap s \<Longrightarrow> \<exists>p0 g0 nd. transition (fst (navigateToNode s i t t))
            = Some (FallbackTransition p0 g0 t (duration_ms s) nd)"
  using assms(4) unfolding navigateToNode_accepted[OF assms(1-3)]
  by (simp_all add: Let_def fallbackTransition_def animate_running progress_at_pos duration_ms_def)

lemma complete_after_navigate:
  assumes "0 \<le> i" "i < int (length nodePositions)" "\<not> isTransitioning s" "0 < duration_ms s"
  shows "\<not> isTransitioning (complete_transition (fst (navigateToNode s i t t)) (t + duration_ms s))
     \<and> currentNodeIndex (complete_transition (fst (navigateToNode s i t t)) (t + duration_ms s)) = i
     \<and> enabled (complete_transition (fst (navigateToNode s i t t)) (t + duration_ms s)) = enabled s
     \<and> options (complete_transition (fst (navigateToNode s i t t)) (t + duration_ms s)) = options s"
proof (cases "gsap s")
  case True
  from navigateToNode_pending(1)[OF assms True, of t] obtain nd dur
    where "transition (fst (navigateToNode s i t t)) = Some (GsapTweens nd dur)" by blast
  then show ?thesis
    using True navigateToNode_started[OF assms(1-3), of t t]
    by (simp add: complete_transition_def gsapComplete_def)
next
  case False
  from navigateToNode_pending(2)[OF assms False, of t] obtain p0 g0 nd
    where "transition (fst (navigateToNode s i t t)) = Some (FallbackTransition p0 g0 t (duration_ms s) nd)" by blast
  then show ?thesis
    using False navigateToNode_started[OF assms(1-3), of t t] assms(4)
    by (simp add: complete_transition_def onAnimationFrame_def animate_def Let_def progress_at_pos)
qed

lemma duration_ms_cong: "options s' = options s \<Longrightarrow> duration_ms s' = duration_ms s"
  by (simp add: duration_ms_def)

lemma press_tab_complete:
  assumes "enabled s" "\<not> isTransitioning s" "0 \<le> currentNodeIndex s"
    "currentNodeIndex s < int (length nodePositions)" "0 < duration_ms s"
  shows "enabled (press_and_complete s tab_key t) \<and> \<not> isTransitioning (press_and_complete s tab_key t)
     \<and> currentNodeIndex (press_and_complete s tab_key t) = (currentNodeIndex s + 1) mod int (length nodePositions)
     \<and> duration_ms (press_and_complete s tab_key t) = duration_ms s"
proof -
  let ?i = "(currentNodeIndex s + 1) mod int (length nodePositions)"
  have i: "0 \<le> ?i" "?i < int (length nodePositions)" by simp_all
  have k: "fst (onKeyDown s tab_key t t) = fst (navigateToNode s ?i t t)"
    using onKeyDown_Tab[OF assms(1,3), of False t t] by (simp add: tab_key_def Let_def)
  note c = complete_after_navigate[OF i assms(2,5), of t]
  from c have "duration_ms (complete_transition (fst (navigateToNode s ?i t t)) (t + duration_ms s))
      = duration_ms s"
    by (intro duration_ms_cong) simp
  with c assms(1) show ?thesis
    unfolding press_and_complete_def k by simp
qed

lemma tabs_run:
  assumes "enabled s" "\<not> isTransitioning s" "0 \<le> currentNodeIndex s"
    "currentNodeIndex s < int (length nodePositions)" "0 < duration_ms s"
  shows "currentNodeIndex (foldl (\<lambda>c t. press_and_complete c tab_key t) s ts)
     = (currentNodeIndex s + int (length ts)) mod int (length nodePositions)"
  using assms
proof (induction ts arbitrary: s)
  case Nil
  then show ?case by simp
next
  case (Cons t ts)
  let ?s = "press_and_complete s tab_key t"
  from press_tab_complete[OF Cons.prems, of t]
  have p: "enabled ?s" "\<not> isTransitioning ?s"
    "currentNodeIndex ?s = (currentNodeIndex s + 1) mod int (length nodePositions)"
    "duration_ms ?s = duration_ms s" by simp_all
  have "currentNodeIndex (foldl (\<lambda>c t. press_and_complete c tab_key t) ?s ts)
     = (currentNodeIndex ?s + int (length ts)) mod int (length nodePositions)"
    by (rule Cons.IH) (use p Cons.prems(5) in simp_all)
  then show ?case by (simp add: p(3) mod_simps algebra_simps)
qed

text \<open>
  Claim C7: on an enabled controller that is not in a transition, with \<open>N\<close> nodes and
  the current index \<open>c\<close> among them, Tab navigates to \<open>(c + 1) mod N\<close>, Shift+Tab to
  \<open>(c - 1 + N) mod N\<close> and Home to \<open>0\<close>, and that index becomes the current one. When
  each Tab is followed by the end of its transition, a run of Tab presses advances the
  index by their number modulo \<open>N\<close>; five of them from index 0 of the five nodes come
  back to 0.
\<close>

theorem tab_cycles_through_nodes:
  assumes "enabled s" and "\<not> isTransitioning s" and "0 \<le> currentNodeIndex s"
    and "currentNodeIndex s < int (length nodePositions)"
  shows "fst (onKeyDown s \<lparr>key = ''Tab'', shiftKey = False\<rparr> t0 t1)
      = fst (navigateToNode s ((currentNodeIndex s + 1) mod int (length nodePositions)) t0 t1)
    \<and> fst (onKeyDown s \<lparr>key = ''Tab'', shiftKey = True\<rparr> t0 t1)
      = fst (navigateToNode s
          ((currentNodeIndex s - 1 + int (length nodePositions)) mod int (length nodePositions)) t0 t1)
    \<and> fst (onKeyDown s \<lparr>key = ''Home'', shiftKey = sh\<rparr> t0 t1) = fst (navigateToNode s 0 t0 t1)
    \<and> currentNodeIndex (fst (onKeyDown s \<lparr>key = ''Tab'', shiftKey = False\<rparr> t0 t1))
      = (currentNodeIndex s + 1) mod int (length nodePositions)
    \<and> currentNodeIndex (fst (onKeyDown s \<lparr>key = ''Tab'', shiftKey = True\<rparr> t0 t1))
      = (currentNodeIndex s - 1 + int (length nodePositions)) mod int (length nodePositions)
    \<and> currentNodeIndex (fst (onKeyDown s \<lparr>key = ''Home'', shiftKey = sh\<rparr> t0 t1)) = 0
    \<and> (0 < duration_ms s \<longrightarrow>
         currentNodeIndex (foldl (\<lambda>c t. press_and_complete c tab_key t) s ts)
           = (currentNodeIndex s + int (length ts)) mod int (length nodePositions))
    \<and> (0 < duration_ms s \<and> currentNodeIndex s = 0 \<longrightarrow>
         currentNodeIndex (foldl (\<lambda>c t. press_and_complete c tab_key t) s [ta, tb, tc, td, te]) = 0)"
proof -
  let ?n = "int (length nodePositions)"
  have a: "0 \<le> (currentNodeIndex s + 1) mod ?n" "(currentNodeIndex s + 1) mod ?n < ?n"
    "0 \<le> (currentNodeIndex s - 1 + ?n) mod ?n" "(currentNodeIndex s - 1 + ?n) mod ?n < ?n"
    by simp_all
  note tab = onKeyDown_Tab[OF assms(1,3)]
  have 1: "fst (onKeyDown s \<lparr>key = ''Tab'', shiftKey = False\<rparr> t0 t1)
      = fst (navigateToNode s ((currentNodeIndex s + 1) mod ?n) t0 t1)"
    using tab[of False t0 t1] by (simp add: Let_def)
  have 2: "fst (onKeyDown s \<lparr>key = ''Tab'', shiftKey = True\<rparr> t0 t1)
      = fst (navigateToNode s ((currentNodeIndex s - 1 + ?n) mod ?n) t0 t1)"
    using tab[of True t0 t1] by (simp add: Let_def)
  have 3: "fst (onKeyDown s \<lparr>key = ''Home'', shiftKey = sh\<rparr> t0 t1) = fst (navigateToNode s 0 t0 t1)"
    using onKeyDown_Home[OF assms(1), of sh t0 t1] by simp
  have 4: "currentNodeIndex (fst (onKeyDown s \<lparr>key = ''Tab'', shiftKey = False\<rparr> t0 t1))
      = (currentNodeIndex s + 1) mod ?n"
    unfolding 1 using navigateToNode_started[OF a(1,2) assms(2), of t0 t1] by blast
  have 5: "currentNodeIndex (fst (onKeyDown s \<lparr>key = ''Tab'', shiftKey = True\<rparr> t0 t1))
      = (currentNodeIndex s - 1 + ?n) mod ?n"
    unfolding 2 using navigateToNode_started[OF a(3,4) assms(2), of t0 t1] by blast
  have 6: "currentNodeIndex (fst (onKeyDown s \<lparr>key = ''Home'', shiftKey = sh\<rparr> t0 t1)) = 0"
    unfolding 3 using navigateToNode_started[of 0 s t0 t1] assms(2) by simp
  have 7: "currentNodeIndex (foldl (\<lambda>c t. press_and_complete c tab_key t) s ts)
           = (currentNodeIndex s + int (length ts)) mod ?n" if "0 < duration_ms s" for ts
    by (rule tabs_run[OF assms that])
  have 8: "currentNodeIndex (foldl (\<lambda>c t. press_and_complete c tab_key t) s [ta, tb, tc, td, te]) = 0"
    if "0 < duration_ms s" "currentNodeIndex s = 0"
    using 7[OF that(1), of "[ta, tb, tc, td, te]"] that(2) by simp
  from 1 2 3 4 5 6 7 8 show ?thesis by blast
qed

theorem tab_cycles_through_nodes_witness:
  "enabled hub_controller \<and> \<not> isTransitioning hub_controller
   \<and> 0 \<le> currentNodeIndex hub_controller
   \<and> currentNodeIndex hub_controller < int (length nodePositions)
   \<and> 0 < duration_ms hub_controller
   \<and> currentNodeIndex (fst (onKeyDown hub_controller \<lparr>key = ''Tab'', shiftKey = False\<rparr> 0 0)) = 1
   \<and> currentNodeIndex (fst (onKeyDown hub_controller \<lparr>key = ''Tab'', shiftKey = True\<rparr> 0 0)) = 4
   \<and> currentNodeIndex (fst (onKeyDown hub_controller \<lparr>key = ''Home'', shiftKey = False\<rparr> 0 0)) = 0
   \<and> currentNodeIndex (foldl (\<lambda>c t. press_and_complete c tab_key t) hub_controller
        [0, 3000, 6000, 9000]) = 4
   \<and> currentNodeIndex (foldl (\<lambda>c t. press_and_complete c tab_key t) hub_controller
        [0, 3000, 6000, 9000, 12000]) = 0"
proof -
  have h: "enabled hub_controller" "\<not> isTransitioning hub_controller"
    "0 \<le> currentNodeIndex hub_controller"
    "currentNodeIndex hub_controller < int (length nodePositions)" by simp_all
  have d: "0 < duration_ms hub_controller"
    by (simp add: duration_ms_def default_options_def)
  note t = tab_cycles_through_nodes[OF h, of 0 0 False]
  from t have "currentNodeIndex (fst (onKeyDown hub_controller \<lparr>key = ''Tab'', shiftKey = False\<rparr> 0 0))
      = (currentNodeIndex hub_controller + 1) mod int (length nodePositions)" by blast
  then have 1: "currentNodeIndex (fst (onKeyDown hub_controller \<lparr>key = ''Tab'', shiftKey = False\<rparr> 0 0)) = 1"
    by simp
  from t have "currentNodeIndex (fst (onKeyDown hub_controller \<lparr>key = ''Tab'', shiftKey = True\<rparr> 0 0))
      = (currentNodeIndex hub_controller - 1 + int (length nodePositions)) mod int (length nodePositions)"
    by blast
  then have 2: "currentNodeIndex (fst (onKeyDown hub_controller \<lparr>key = ''Tab'', shiftKey = True\<rparr> 0 0)) = 4"
    by simp
  from t have 3: "currentNodeIndex (fst (onKeyDown hub_controller \<lparr>key = ''Home'', shiftKey = False\<rparr> 0 0)) = 0"
    by blast
  from tab_cycles_through_nodes[OF h, of 0 0 False "[0, 3000, 6000, 9000]"] d
  have "currentNodeIndex (foldl (\<lambda>c t. press_and_complete c tab_key t) hub_controller [0, 3000, 6000, 9000])
      = (currentNodeIndex hub_controller + int (length [0::real, 3000, 6000, 9000])) mod int (length nodePositions)"
    by blast
  then have 4: "currentNodeIndex (foldl (\<lambda>c t. press_and_complete c tab_key t) hub_controller
        [0, 3000, 6000, 9000]) = 4" by simp
  from tab_cycles_through_nodes[OF h, of 0 0 False "[]" 0 3000 6000 9000 12000] d
  have 5: "currentNodeIndex (foldl (\<lambda>c t. press_and_complete c tab_key t) hub_controller
        [0, 3000, 6000, 9000, 12000]) = 0" by simp
  from h d 1 2 3 4 5 show ?thesis by blast
qed

lemma reduced_fields [simp]:
  "reducedMotion (options reduced_controller)" "enabled reduced_controller"
  "\<not> isTransitioning reduced_controller" "\<not> gsap reduced_controller"
  "camera_position reduced_controller = vec 0 0 50" "target reduced_controller = vec 0 0 0"
  "onNavigateCallbacks reduced_controller = []"
  by (simp_all add: reduced_controller_def setReducedMotion_def)

lemma node_2: "nodePositions ! 2 = NodePosition (vec (- 30) 10 20) (vec (- 25) 5 5) ''Work''"
  by (simp add: nodePositions_def)

lemma reduced_navigate:
  "navigateToNode (onNavigate reduced_controller 7) 2 0 0 =
     ((onNavigate reduced_controller 7)\<lparr>currentNodeIndex := 2, isTransitioning := True,
        transition := Some (FallbackTransition (vec 0 0 50) (vec 0 0 0) 0 100 (nodePositions ! 2)),
        camera_position := vec 0 0 50, target := vec 0 0 0\<rparr>,
      [NavigateCallback 7 2 ''Work'', SetCameraPosition (vec 0 0 50), SetTarget (vec 0 0 0),
       LookAt (vec 0 0 0), RequestAnimationFrame])"
  by (simp add: navigateToNode_accepted Let_def fallbackTransition_def animate_def progress_at_pos
      ease_in_out_Num node_2 notifications_def onNavigate_def lerpVectors_whole)

text \<open>
  Claim C6 has a navigation in the reduced-motion mode complete in one tick, the
  listeners firing before the first and only update of the camera position. In that
  mode \<^verbatim>\<open>navigateToNode\<close> gives the same animated transition a duration of 0.1 s. On the
  application's controller with one listener, a navigation to the Work node at time 0
  calls the listener and then writes the camera position in the first \<^verbatim>\<open>animate\<close>; the
  frame at 50 ms writes it again, at the midpoint of the way, and leaves the transition
  active; the transition ends on the frame at 100 ms.
\<close>

theorem reduced_motion_spans_frames:
  "reducedMotion (options (onNavigate reduced_controller 7))
   \<and> snd (navigateToNode (onNavigate reduced_controller 7) 2 0 0)
       = [NavigateCallback 7 2 ''Work'', SetCameraPosition (vec 0 0 50), SetTarget (vec 0 0 0),
          LookAt (vec 0 0 0), RequestAnimationFrame]
   \<and> isTransitioning (fst (navigateToNode (onNavigate reduced_controller 7) 2 0 0))
   \<and> snd (onAnimationFrame (fst (navigateToNode (onNavigate reduced_controller 7) 2 0 0)) 50)
       = [SetCameraPosition (vec (- 15) 5 35), SetTarget (vec (- 12.5) 2.5 2.5),
          LookAt (vec (- 12.5) 2.5 2.5), RequestAnimationFrame]
   \<and> isTransitioning
        (fst (onAnimationFrame (fst (navigateToNode (onNavigate reduced_controller 7) 2 0 0)) 50))
   \<and> camera_position (frame_after (onNavigate reduced_controller 7) 2 0 0 [50] 100)
       = vec (- 30) 10 20
   \<and> \<not> isTransitioning (frame_after (onNavigate reduced_controller 7) 2 0 0 [50] 100)"
  unfolding frame_after_def run_frames_def reduced_navigate
  by (simp add: onAnimationFrame_def animate_def Let_def progress_at_pos ease_in_out_Num node_2
      lerpVectors_whole onNavigate_def power2_eq_square)

section \<open>Hover and selection\<close>

lemma findNodeGroup_None: "findNodeGroup obj = None \<longleftrightarrow> (\<forall>a \<in> set (chain obj). \<not> isNode a)"
  by (induction obj rule: findNodeGroup.induct) (auto split: option.splits)

lemma findNodeGroup_Some: "findNodeGroup obj = Some n \<Longrightarrow> isNode n \<and> n \<in> set (chain obj)"
  by (induction obj rule: findNodeGroup.induct) (auto split: option.splits if_splits)

lemma listening_fields [simp]:
  "hoveredObject listening_manager = None" "isEnabled listening_manager"
  "callbacks listening_manager hover = [0]" "callbacks listening_manager unhover = [1]"
  "callbacks listening_manager select = [2]" "callbacks listening_manager click = []"
  by (simp_all add: listening_manager_def on_def new_InteractionManager_def)

lemma find_work [simp]: "findNodeGroup work_core = Some work_group" "findNodeGroup loose_mesh = None"
  "findNodeGroup work_group = Some work_group"
  by (simp_all add: work_core_def work_group_def loose_mesh_def)

lemma hovering_fields [simp]:
  "hoveredObject hovering_manager = Some work_group" "isEnabled hovering_manager"
  "callbacks hovering_manager = callbacks listening_manager"
  by (simp_all add: hovering_manager_def checkHover_def hit_def Let_def)

text \<open>
  Claim C8: when a hover resolution yields an entity other than the hovered one, one
  unhover event for the previous entity (if there is one) is followed by one hover
  event for the new entity (if there is one), and nothing is emitted when the entity
  is the same. The code breaks this where the first intersection has no node among its
  ancestors while an entity is hovered: the resolution yields none, and after the
  unhover event the hover listeners are still called, with a null entity, and the
  cursor is set to \<^verbatim>\<open>pointer\<close>. \<^verbatim>\<open>onClick\<close> and \<^verbatim>\<open>onTouchEnd\<close> test the node group before
  they emit; \<^verbatim>\<open>checkHover\<close> does not.
\<close>

theorem hover_event_with_null_entity:
  "hoveredObject hovering_manager = Some work_group
   \<and> resolve [hit loose_mesh] = None
   \<and> checkHover hovering_manager [hit loose_mesh]
      = (hovering_manager\<lparr>hoveredObject := None\<rparr>,
         [Call 1 (Unhover work_group), Cursor ''pointer'', Call 0 (Hover None (hit loose_mesh))])"
  by (simp add: checkHover_def resolve_def hit_def triggerCallbacks_def Let_def)

text \<open>
  In every other case the hover events are as claim C8 has them: where nothing is
  hit, or the first intersection has a node among its ancestors, or nothing was
  hovered, \<^verbatim>\<open>checkHover\<close> emits nothing when the resolved entity is the hovered one, and
  otherwise sets \<^verbatim>\<open>hoveredObject\<close> to the resolved entity and calls the unhover listeners
  for the previous entity, if any, and then the hover listeners for the new one, if any.
\<close>

theorem checkHover_exit_then_enter:
  assumes "intersections = [] \<or> resolve intersections \<noteq> None \<or> hoveredObject m = None"
  shows "(resolve intersections = hoveredObject m \<longrightarrow> checkHover m intersections = (m, []))
    \<and> (resolve intersections \<noteq> hoveredObject m \<longrightarrow>
         hoveredObject (fst (checkHover m intersections)) = resolve intersections
         \<and> filter is_call (snd (checkHover m intersections))
            = (case hoveredObject m of
                 Some h \<Rightarrow> triggerCallbacks m unhover (Unhover h) | None \<Rightarrow> [])
              @ (case resolve intersections of
                   Some n \<Rightarrow> triggerCallbacks m hover (Hover (Some n) (hd intersections))
                 | None \<Rightarrow> []))"
  using assms
  by (auto simp: checkHover_def resolve_def triggerCallbacks_def Let_def
           split: list.splits option.splits)

theorem checkHover_exit_then_enter_witness:
  "resolve [hit work_core] = Some work_group
   \<and> filter is_call (snd (checkHover listening_manager [hit work_core]))
       = [Call 0 (Hover (Some work_group) (hit work_core))]
   \<and> checkHover hovering_manager [hit work_core] = (hovering_manager, [])
   \<and> hoveredObject (fst (checkHover hovering_manager [])) = None
   \<and> filter is_call (snd (checkHover hovering_manager [])) = [Call 1 (Unhover work_group)]"
proof -
  have r: "resolve [hit work_core] = Some work_group" "resolve [] = None"
    by (simp_all add: resolve_def hit_def)
  have a: "[hit work_core] = [] \<or> resolve [hit work_core] \<noteq> None
      \<or> hoveredObject listening_manager = None" by simp
  have b: "[hit work_core] = [] \<or> resolve [hit work_core] \<noteq> None
      \<or> hoveredObject hovering_manager = None" by (simp add: r)
  have c: "[] = [] \<or> resolve [] \<noteq> None \<or> hoveredObject hovering_manager = None" by simp
  from checkHover_exit_then_enter[OF a] r
  have 1: "filter is_call (snd (checkHover listening_manager [hit work_core]))
       = [Call 0 (Hover (Some work_group) (hit work_core))]"
    by (simp add: triggerCallbacks_def)
  from checkHover_exit_then_enter[OF b] r
  have 2: "checkHover hovering_manager [hit work_core] = (hovering_manager, [])" by simp
  from checkHover_exit_then_enter[OF c] r
  have 3: "hoveredObject (fst (checkHover hovering_manager [])) = None
     \<and> filter is_call (snd (checkHover hovering_manager [])) = [Call 1 (Unhover work_group)]"
    by (simp add: triggerCallbacks_def)
  from r 1 2 3 show ?thesis by blast
qed

text \<open>
  Claim C10, as stated, has \<^verbatim>\<open>checkHover\<close> emit a hover event with a null entity whenever
  the first intersection has no node among its ancestors. With nothing hovered it
  emits nothing: the resolved null equals \<^verbatim>\<open>hoveredObject\<close>, and the guard
  \<^verbatim>\<open>nodeGroup !== this.hoveredObject\<close> skips the branch.
\<close>

theorem no_hover_event_without_previous:
  "chain loose_mesh = [loose_mesh] \<and> \<not> isNode loose_mesh
   \<and> hoveredObject listening_manager = None
   \<and> checkHover listening_manager [hit loose_mesh] = (listening_manager, [])"
  by (simp add: checkHover_def hit_def Let_def loose_mesh_def)

text \<open>
  Claim C10, amended: when the first intersection has no node among its ancestors and
  an entity is hovered, \<^verbatim>\<open>checkHover\<close> calls the unhover listeners for that entity, sets
  \<^verbatim>\<open>hoveredObject\<close> to null and the cursor to \<^verbatim>\<open>pointer\<close>, and then calls the hover
  listeners with a null entity; when nothing is hovered it changes nothing and emits
  nothing.
\<close>

theorem hit_without_node_ancestor:
  assumes "\<forall>a \<in> set (chain (object first)). \<not> isNode a"
  shows "checkHover m (first # rest) =
     (case hoveredObject m of
        Some h \<Rightarrow> (m\<lparr>hoveredObject := None\<rparr>,
                   triggerCallbacks m unhover (Unhover h) @ [Cursor ''pointer'']
                   @ triggerCallbacks m hover (Hover None first))
      | None \<Rightarrow> (m, []))"
proof -
  from assms have "findNodeGroup (object first) = None" by (simp add: findNodeGroup_None)
  then show ?thesis by (simp add: checkHover_def Let_def split: option.splits)
qed

theorem hit_without_node_ancestor_witness:
  "chain (object (hit loose_mesh)) = [loose_mesh] \<and> \<not> isNode loose_mesh
   \<and> checkHover hovering_manager [hit loose_mesh]
      = (hovering_manager\<lparr>hoveredObject := None\<rparr>,
         [Call 1 (Unhover work_group), Cursor ''pointer'', Call 0 (Hover None (hit loose_mesh))])
   \<and> checkHover listening_manager [hit loose_mesh] = (listening_manager, [])"
proof -
  have c: "\<forall>a \<in> set (chain (object (hit loose_mesh))). \<not> isNode a"
    by (simp add: hit_def loose_mesh_def)
  have d: "chain (object (hit loose_mesh)) = [loose_mesh]" "\<not> isNode loose_mesh"
    by (simp_all add: hit_def loose_mesh_def)
  from hit_without_node_ancestor[OF c, of hovering_manager "[]"]
    hit_without_node_ancestor[OF c, of listening_manager "[]"] d
  show ?thesis by (simp add: triggerCallbacks_def)
qed

lemma run_select_listener_busy:
  "isTransitioning (cameraController app) \<Longrightarrow>
   run_select_listener app ns t0 t1 = (app, [])"
  by (induction ns) (simp_all add: app_navigateToNode_def navigateToNode_busy Let_def)

lemma busy_controller [simp]: "isTransitioning (fst (navigateToNode hub_controller 1 0 0))"
  by (simp add: navigateToNode_accepted Let_def fallbackTransition_def animate_running
      progress_at_pos default_options_def)

lemma tap_is_click:
  "app_onTouchEnd app True intersections t0 t1 = app_onClick app intersections t0 t1"
  "app_onTouchEnd app False intersections t0 t1 = (app, [], [])"
  by (simp_all add: app_onTouchEnd_def app_onClick_def onTouchEnd_def onClick_def)

lemma onClick_node:
  assumes "isEnabled m" and "resolve intersections = Some n"
  shows "onClick m intersections =
     (m\<lparr>selectedObject := Some n\<rparr>,
      triggerCallbacks m click (Click n (hd intersections))
      @ triggerCallbacks m select (Select n (hd intersections)))"
  using assms
  by (cases intersections) (simp_all add: onClick_def select_first_def resolve_def)

lemma selected_nodes_click:
  "selected_nodes (map (\<lambda>cb. Call cb (Click n h)) cbs @ rest) = selected_nodes rest"
  by (induction cbs) simp_all

lemma selected_nodes_one:
  assumes "callbacks m select = [cb]"
  shows "selected_nodes (triggerCallbacks m click (Click n h) @ triggerCallbacks m select (Select n h))
     = [n]"
  using assms by (simp add: triggerCallbacks_def selected_nodes_click)

lemma app_onClick_disabled:
  "\<not> isEnabled (interactionManager app) \<Longrightarrow> app_onClick app intersections t0 t1 = (app, [], [])"
  by (simp add: app_onClick_def onClick_def)

lemma app_onClick_events:
  assumes "isEnabled (interactionManager app)" and "resolve intersections = Some n"
  shows "fst (snd (app_onClick app intersections t0 t1))
     = triggerCallbacks (interactionManager app) click (Click n (hd intersections))
       @ triggerCallbacks (interactionManager app) select (Select n (hd intersections))"
  by (simp add: app_onClick_def onClick_node[OF assms] split: prod.splits)

lemma app_onClick_busy:
  assumes "isTransitioning (cameraController app)"
  shows "cameraController (fst (app_onClick app intersections t0 t1)) = cameraController app"
    and "snd (snd (app_onClick app intersections t0 t1)) = []"
  using assms by (simp_all add: app_onClick_def run_select_listener_busy split: prod.splits)

lemma app_onClick_idle:
  assumes "isEnabled (interactionManager app)" and "isInitialized app"
    and "resolve intersections = Some n" and "callbacks (interactionManager app) select = [cb]"
  shows "cameraController (fst (app_onClick app intersections t0 t1))
       = fst (navigateToNode (cameraController app) (userIndex n) t0 t1)"
    and "snd (snd (app_onClick app intersections t0 t1))
       = snd (navigateToNode (cameraController app) (userIndex n) t0 t1)"
  using assms(2)
  by (simp_all add: app_onClick_def onClick_node[OF assms(1,3)] selected_nodes_one[OF assms(4)]
      app_navigateToNode_def Let_def split: prod.splits)

lemma onKeyDown_busy:
  assumes "isTransitioning s" and "nav_key e"
  shows "fst (onKeyDown s e t0 t1) = s \<and> snd (onKeyDown s e t0 t1) \<in> {[], [PreventDefault]}"
proof (cases "enabled s")
  case False
  then show ?thesis by (simp add: onKeyDown_def)
next
  case True
  have r: "navigateToNode s i t0 t1 = (s, [])" for i
    using assms(1) by (simp add: navigateToNode_busy)
  from assms(2) consider "''1'' \<le> key e \<and> key e \<le> ''5''"
    | "\<not> (''1'' \<le> key e \<and> key e \<le> ''5'')" "key e = ''Home''"
    | "\<not> (''1'' \<le> key e \<and> key e \<le> ''5'')" "key e = ''Tab''"
    unfolding nav_key_def by blast
  then show ?thesis
  proof cases
    case 1
    then show ?thesis using True by (simp add: onKeyDown_def r Let_def)
  next
    case 2
    then show ?thesis using True by (simp add: onKeyDown_def r Let_def)
  next
    case 3
    then show ?thesis using True by (simp add: onKeyDown_def r Let_def)
  qed
qed

lemma frozen_fields [simp]:
  "cameraController frozen_app = hub_controller\<lparr>enabled := False\<rparr>"
  "interactionManager frozen_app = listening_manager"
  "isInitialized frozen_app"
  by (simp_all add: frozen_app_def)

lemma busy_fields [simp]:
  "cameraController busy_app = fst (navigateToNode hub_controller 1 0 0)"
  "interactionManager busy_app = listening_manager"
  "isInitialized busy_app"
  by (simp_all add: busy_app_def)

lemma resolve_work [simp]: "resolve [hit work_core] = Some work_group"
  by (simp add: resolve_def hit_def)

lemma frozen_navigate:
  "isTransitioning (fst (navigateToNode (hub_controller\<lparr>enabled := False\<rparr>) 2 0 0))"
  "currentNodeIndex (fst (navigateToNode (hub_controller\<lparr>enabled := False\<rparr>) 2 0 0)) = 2"
  "snd (navigateToNode (hub_controller\<lparr>enabled := False\<rparr>) 2 0 0) \<noteq> []"
proof -
  have h: "(0::int) \<le> 2" "2 < int (length nodePositions)"
    "\<not> isTransitioning (hub_controller\<lparr>enabled := False\<rparr>)" by simp_all
  have d: "duration_ms (hub_controller\<lparr>enabled := False\<rparr>) = 2000"
    by (simp add: duration_ms_def default_options_def)
  show "isTransitioning (fst (navigateToNode (hub_controller\<lparr>enabled := False\<rparr>) 2 0 0))"
    by (rule navigateToNode_fallback(2)[OF h]) (simp_all add: d)
  show "currentNodeIndex (fst (navigateToNode (hub_controller\<lparr>enabled := False\<rparr>) 2 0 0)) = 2"
    using navigateToNode_started[OF h, of 0 0] by simp
  from navigateToNode_trace[OF h, of 0 0]
  show "snd (navigateToNode (hub_controller\<lparr>enabled := False\<rparr>) 2 0 0) \<noteq> []" by auto
qed

text \<open>
  Claim C9, as stated, has every navigation input ignored, with no navigation started
  and no selection event emitted, while a transition is active or interaction is
  disabled. The interaction manager knows neither the controller's transitions nor its
  \<^verbatim>\<open>enabled\<close> flag, and \<^verbatim>\<open>navigateToNode\<close> does not read that flag. So a click or a tap on
  the Work node during a transition still calls the select listener; and a click on it
  while the controller is disabled and idle calls the listener and starts the
  navigation to the node.
\<close>

theorem selection_not_gated_by_controller:
  "isTransitioning (cameraController busy_app) \<and> isEnabled (interactionManager busy_app)
   \<and> fst (snd (app_onClick busy_app [hit work_core] 500 500))
       = [Call 2 (Select work_group (hit work_core))]
   \<and> fst (snd (app_onTouchEnd busy_app True [hit work_core] 500 500))
       = [Call 2 (Select work_group (hit work_core))]
   \<and> \<not> enabled (cameraController frozen_app) \<and> \<not> isTransitioning (cameraController frozen_app)
   \<and> fst (snd (app_onClick frozen_app [hit work_core] 0 0))
       = [Call 2 (Select work_group (hit work_core))]
   \<and> isTransitioning (cameraController (fst (app_onClick frozen_app [hit work_core] 0 0)))
   \<and> currentNodeIndex (cameraController (fst (app_onClick frozen_app [hit work_core] 0 0))) = 2"
proof -
  have e: "isEnabled (interactionManager busy_app)" "isEnabled (interactionManager frozen_app)"
    by simp_all
  have 1: "fst (snd (app_onClick busy_app [hit work_core] 500 500))
       = [Call 2 (Select work_group (hit work_core))]"
    unfolding app_onClick_events[OF e(1) resolve_work] by (simp add: triggerCallbacks_def)
  have 2: "fst (snd (app_onTouchEnd busy_app True [hit work_core] 500 500))
       = [Call 2 (Select work_group (hit work_core))]"
    unfolding tap_is_click by (rule 1)
  have 3: "fst (snd (app_onClick frozen_app [hit work_core] 0 0))
       = [Call 2 (Select work_group (hit work_core))]"
    unfolding app_onClick_events[OF e(2) resolve_work] by (simp add: triggerCallbacks_def)
  have c: "callbacks (interactionManager frozen_app) select = [2]" by simp
  have u: "userIndex work_group = 2" by (simp add: work_group_def)
  note i = app_onClick_idle(1)[OF e(2) frozen_fields(3) resolve_work c, of 0 0]
  have 4: "isTransitioning (cameraController (fst (app_onClick frozen_app [hit work_core] 0 0)))"
    "currentNodeIndex (cameraController (fst (app_onClick frozen_app [hit work_core] 0 0))) = 2"
    unfolding i u frozen_fields by (rule frozen_navigate)+
  have 5: "isTransitioning (cameraController busy_app)"
    "\<not> enabled (cameraController frozen_app)" "\<not> isTransitioning (cameraController frozen_app)"
    by simp_all
  from e 1 2 3 4 5 show ?thesis by blast
qed

text \<open>
  Claim C9, amended. The keys: a key press does nothing while the controller is
  disabled, and while a transition is active the navigation keys (digits, Home, Tab)
  start no navigation and leave the controller unchanged (Home and Tab still call
  \<^verbatim>\<open>preventDefault\<close>). The pointer: a tap is handled as a click when the event holds a
  changed touch and does nothing otherwise; a click does nothing, no event and no
  navigation, while the interaction manager is disabled; while the manager is enabled a
  click on a node calls the click and then the select listeners, whatever the state of
  the controller. The navigation that the application's select listener then requests
  is rejected while a transition is active, the controller staying unchanged; on an
  idle controller it starts, whether the controller is enabled or not, for an
  initialised application and a node index among the nodes.
\<close>

theorem navigation_inputs_gated:
  "(\<not> enabled s \<longrightarrow> onKeyDown s e t0 t1 = (s, []))
   \<and> (isTransitioning s \<and> nav_key e \<longrightarrow>
        fst (onKeyDown s e t0 t1) = s \<and> snd (onKeyDown s e t0 t1) \<in> {[], [PreventDefault]})
   \<and> app_onTouchEnd app True intersections t0 t1 = app_onClick app intersections t0 t1
   \<and> app_onTouchEnd app False intersections t0 t1 = (app, [], [])
   \<and> (\<not> isEnabled (interactionManager app) \<longrightarrow>
        app_onClick app intersections t0 t1 = (app, [], []))
   \<and> (isEnabled (interactionManager app) \<and> resolve intersections = Some n \<longrightarrow>
        fst (snd (app_onClick app intersections t0 t1))
          = triggerCallbacks (interactionManager app) click (Click n (hd intersections))
            @ triggerCallbacks (interactionManager app) select (Select n (hd intersections)))
   \<and> (isTransitioning (cameraController app) \<longrightarrow>
        cameraController (fst (app_onClick app intersections t0 t1)) = cameraController app
        \<and> snd (snd (app_onClick app intersections t0 t1)) = [])
   \<and> (isEnabled (interactionManager app) \<and> isInitialized app
      \<and> callbacks (interactionManager app) select = [cb]
      \<and> resolve intersections = Some n \<and> 0 \<le> userIndex n
      \<and> userIndex n < int (length nodePositions)
      \<and> \<not> isTransitioning (cameraController app) \<longrightarrow>
        cameraController (fst (app_onClick app intersections t0 t1))
          = fst (navigateToNode (cameraController app) (userIndex n) t0 t1)
        \<and> currentNodeIndex (cameraController (fst (app_onClick app intersections t0 t1)))
          = userIndex n
        \<and> snd (snd (app_onClick app intersections t0 t1))
          = snd (navigateToNode (cameraController app) (userIndex n) t0 t1)
        \<and> snd (snd (app_onClick app intersections t0 t1)) \<noteq> [])"
proof -
  have 1: "onKeyDown s e t0 t1 = (s, [])" if "\<not> enabled s"
    using that by (simp add: onKeyDown_def)
  note 2 = onKeyDown_busy[of s e t0 t1]
  note 3 = tap_is_click[of app intersections t0 t1]
  note 4 = app_onClick_disabled[of app intersections t0 t1]
  note 5 = app_onClick_events[of app intersections n t0 t1]
  note 6 = app_onClick_busy[of app intersections t0 t1]
  have 7: "cameraController (fst (app_onClick app intersections t0 t1))
          = fst (navigateToNode (cameraController app) (userIndex n) t0 t1)
        \<and> currentNodeIndex (cameraController (fst (app_onClick app intersections t0 t1)))
          = userIndex n
        \<and> snd (snd (app_onClick app intersections t0 t1))
          = snd (navigateToNode (cameraController app) (userIndex n) t0 t1)
        \<and> snd (snd (app_onClick app intersections t0 t1)) \<noteq> []"
    if h: "isEnabled (interactionManager app)" "isInitialized app"
      "callbacks (interactionManager app) select = [cb]" "resolve intersections = Some n"
      "0 \<le> userIndex n" "userIndex n < int (length nodePositions)"
      "\<not> isTransitioning (cameraController app)"
  proof -
    note i = app_onClick_idle[OF h(1,2,4,3), of t0 t1]
    from navigateToNode_started[OF h(5,6,7), of t0 t1]
    have c: "currentNodeIndex (fst (navigateToNode (cameraController app) (userIndex n) t0 t1))
        = userIndex n" by blast
    from navigateToNode_trace[OF h(5,6,7), of t0 t1]
    have m: "snd (navigateToNode (cameraController app) (userIndex n) t0 t1) \<noteq> []" by auto
    from i c m show ?thesis by simp
  qed
  from 1 2 3 4 5 6 7 show ?thesis by blast
qed

theorem navigation_inputs_gated_witness:
  "\<not> enabled (hub_controller\<lparr>enabled := False\<rparr>)
   \<and> onKeyDown (hub_controller\<lparr>enabled := False\<rparr>) tab_key 0 0
       = (hub_controller\<lparr>enabled := False\<rparr>, [])
   \<and> isTransitioning (cameraController busy_app)
   \<and> nav_key \<lparr>key = ''3'', shiftKey = False\<rparr> \<and> nav_key tab_key
   \<and> fst (onKeyDown (cameraController busy_app) \<lparr>key = ''3'', shiftKey = False\<rparr> 500 500)
       = cameraController busy_app
   \<and> fst (onKeyDown (cameraController busy_app) tab_key 500 500) = cameraController busy_app
   \<and> \<not> isEnabled (interactionManager
         (busy_app\<lparr>interactionManager := fst (setEnabled listening_manager False)\<rparr>))
   \<and> app_onClick (busy_app\<lparr>interactionManager := fst (setEnabled listening_manager False)\<rparr>)
         [hit work_core] 500 500
       = (busy_app\<lparr>interactionManager := fst (setEnabled listening_manager False)\<rparr>, [], [])
   \<and> isEnabled (interactionManager busy_app) \<and> resolve [hit work_core] = Some work_group
   \<and> fst (snd (app_onClick busy_app [hit work_core] 500 500))
       = [Call 2 (Select work_group (hit work_core))]
   \<and> cameraController (fst (app_onClick busy_app [hit work_core] 500 500))
       = cameraController busy_app
   \<and> snd (snd (app_onClick busy_app [hit work_core] 500 500)) = []
   \<and> app_onTouchEnd busy_app True [hit work_core] 500 500
       = app_onClick busy_app [hit work_core] 500 500
   \<and> isEnabled (interactionManager frozen_app) \<and> isInitialized frozen_app
   \<and> callbacks (interactionManager frozen_app) select = [2]
   \<and> (0::int) \<le> userIndex work_group \<and> userIndex work_group < int (length nodePositions)
   \<and> \<not> isTransitioning (cameraController frozen_app)
   \<and> \<not> enabled (cameraController frozen_app)
   \<and> currentNodeIndex (cameraController (fst (app_onClick frozen_app [hit work_core] 0 0))) = 2
   \<and> snd (snd (app_onClick frozen_app [hit work_core] 0 0)) \<noteq> []"
proof -
  let ?off = "busy_app\<lparr>interactionManager := fst (setEnabled listening_manager False)\<rparr>"
  have a: "\<not> enabled (hub_controller\<lparr>enabled := False\<rparr>)" by simp
  have b: "isTransitioning (cameraController busy_app)" by simp
  have c: "nav_key \<lparr>key = ''3'', shiftKey = False\<rparr>" "nav_key tab_key"
    by (simp_all add: nav_key_def tab_key_def)
  have d: "\<not> isEnabled (interactionManager ?off)"
    by (simp add: setEnabled_def Let_def)
  have e: "isEnabled (interactionManager busy_app)" "resolve [hit work_core] = Some work_group"
    by simp_all
  have f: "isEnabled (interactionManager frozen_app)" "isInitialized frozen_app"
    "callbacks (interactionManager frozen_app) select = [2]"
    "(0::int) \<le> userIndex work_group" "userIndex work_group < int (length nodePositions)"
    "\<not> isTransitioning (cameraController frozen_app)" "\<not> enabled (cameraController frozen_app)"
    by (simp_all add: work_group_def)
  note g1 = navigation_inputs_gated[of "hub_controller\<lparr>enabled := False\<rparr>" tab_key 0 0
      ?off "[hit work_core]" work_group 2]
  note g2 = navigation_inputs_gated[of "cameraController busy_app"
      "\<lparr>key = ''3'', shiftKey = False\<rparr>" 500 500 busy_app "[hit work_core]" work_group 2]
  note g3 = navigation_inputs_gated[of "cameraController busy_app" tab_key 500 500
      ?off "[hit work_core]" work_group 2]
  note g4 = navigation_inputs_gated[of "cameraController busy_app" tab_key 0 0
      frozen_app "[hit work_core]" work_group 2]
  from g1 a have 1: "onKeyDown (hub_controller\<lparr>enabled := False\<rparr>) tab_key 0 0
       = (hub_controller\<lparr>enabled := False\<rparr>, [])" by blast
  from g2 b c have 2: "fst (onKeyDown (cameraController busy_app) \<lparr>key = ''3'', shiftKey = False\<rparr> 500 500)
       = cameraController busy_app" by blast
  from g3 b c have 3: "fst (onKeyDown (cameraController busy_app) tab_key 500 500)
       = cameraController busy_app" by blast
  from g3 d have 4: "app_onClick ?off [hit work_core] 500 500 = (?off, [], [])" by blast
  from g2 e have "fst (snd (app_onClick busy_app [hit work_core] 500 500))
       = triggerCallbacks (interactionManager busy_app) click (Click work_group (hd [hit work_core]))
         @ triggerCallbacks (interactionManager busy_app) select (Select work_group (hd [hit work_core]))"
    by blast
  then have 5: "fst (snd (app_onClick busy_app [hit work_core] 500 500))
       = [Call 2 (Select work_group (hit work_core))]"
    by (simp add: triggerCallbacks_def)
  from g2 b have 6: "cameraController (fst (app_onClick busy_app [hit work_core] 500 500))
       = cameraController busy_app
     \<and> snd (snd (app_onClick busy_app [hit work_core] 500 500)) = []" by blast
  from g2 have 7: "app_onTouchEnd busy_app True [hit work_core] 500 500
       = app_onClick busy_app [hit work_core] 500 500" by blast
  from g4 f e(2) have "currentNodeIndex (cameraController (fst (app_onClick frozen_app [hit work_core] 0 0)))
       = userIndex work_group
     \<and> snd (snd (app_onClick frozen_app [hit work_core] 0 0)) \<noteq> []" by blast
  then have 8: "currentNodeIndex (cameraController (fst (app_onClick frozen_app [hit work_core] 0 0))) = 2
     \<and> snd (snd (app_onClick frozen_app [hit work_core] 0 0)) \<noteq> []"
    by (simp add: work_group_def)
  from a b c d e f 1 2 3 4 5 6 7 8 show ?thesis by blast
qed

section \<open>A direct navigation, frame by frame\<close>

lemma hub_navigate_2:
  "fst (navigateToNode hub_controller 2 0 0) =
     hub_controller\<lparr>currentNodeIndex := 2, isTransitioning := True,
        transition := Some (FallbackTransition (vec 0 0 50) (vec 0 0 0) 0 2000 (nodePositions ! 2)),
        camera_position := vec 0 0 50, target := vec 0 0 0\<rparr>"
  by (simp add: navigateToNode_accepted Let_def fallbackTransition_def animate_def progress_at_pos
      ease_in_out_Num node_2 default_options_def lerpVectors_whole)

text \<open>
  The scenario of a direct navigation, from the first call on: \<^verbatim>\<open>navigateToNode(2)\<close> on
  the application's controller (camera at the Hub, duration 2 s, no GSAP) at time 0.
  The frame at 1000 ms puts the camera at the midpoint of the Hub's and the Work node's
  camera positions and leaves the transition active; the frame at 2000 ms puts it at
  the Work node's camera position and ends the transition.
\<close>

theorem direct_navigation_scenario:
  "camera_position (fst (onAnimationFrame (fst (navigateToNode hub_controller 2 0 0)) 1000))
     = vec (- 15) 5 35
   \<and> isTransitioning (fst (onAnimationFrame (fst (navigateToNode hub_controller 2 0 0)) 1000))
   \<and> camera_position (fst (onAnimationFrame (fst (navigateToNode hub_controller 2 0 0)) 2000))
     = vec (- 30) 10 20
   \<and> \<not> isTransitioning (fst (onAnimationFrame (fst (navigateToNode hub_controller 2 0 0)) 2000))"
  by (simp add: hub_navigate_2 onAnimationFrame_def animate_def Let_def progress_at_pos
      ease_in_out_Num node_2 power2_eq_square lerpVectors_whole)

end
